theory Spec2Isabelle
  imports Main "HOL-Library.Sublist"
begin

section \<open>TMSU: tagging, status classification and duplicate detection\<close>

text \<open>
  A shallow embedding of three commands of TMSU: \<^verbatim>\<open>tag\<close> (tagPath, applyTag, addFile,
  validateFileAdd), \<^verbatim>\<open>status\<close> (status, getStatus, getTaggedPathStatus,
  getUntaggedPathStatus) and \<^verbatim>\<open>dupes\<close> (findDuplicatesOf, findDuplicatesInDb).
  Go's \<^verbatim>\<open>(value, error)\<close> returns are sums with the error on the left; the store is
  passed explicitly and returned updated; the filesystem and the standard library are
  parameters collected in a record.
\<close>

subsection \<open>Errors, time, file information\<close>

text \<open>
  \<^verbatim>\<open>ErrNotExist\<close> and \<^verbatim>\<open>ErrPermission\<close> are the errors recognised by os.IsNotExist and
  os.IsPermission; \<^verbatim>\<open>ErrNew\<close> is errors.New; \<^verbatim>\<open>Errorf\<close> is fmt.Errorf wrapping a cause
  (the first argument renders the format with the non-error operands);
  \<^verbatim>\<open>ErrBlank\<close> is the cli package's errBlank. \<^verbatim>\<open>RuntimePanic\<close> is not a Go error value: it
  stands for a run-time panic unwinding through the callers.
\<close>

datatype error =
    ErrNotExist
  | ErrPermission
  | ErrIO string
  | ErrStore
  | ErrNew string
  | ErrBlank
  | Errorf string error
  | RuntimePanic string

text \<open>
  What a command writes: \<open>Info\<close> is log.Infof at verbosity 2, \<open>Warn\<close> is a warning
  (common.Warn, common.Warnf, log.Warnf) with its rendered message, \<open>Println\<close> is one line on
  standard output.
\<close>

datatype event = Info string | Warn string | Println string

text \<open>A time.Time as seconds since the epoch and the nanoseconds within the second.\<close>

record gotime =
  sec :: int
  nsec :: nat

definition Unix :: "gotime \<Rightarrow> int" where
  "Unix t = sec t"

record FileInfo =
  info_IsDir :: bool
  info_ModTime :: gotime

subsection \<open>The filesystem and library collaborators\<close>

text \<open>
  Everything the commands ask of the operating system and of packages outside the
  sources is a field of \<open>env\<close>: os.Stat, filepath.Abs, filepath.Dir, filepath.Join, os.Open
  (only whether it fails), the entry names handed back by Readdir and Readdirnames
  (the callers drop the error of both), the two generations of fingerprint.Create,
  common.MakeRelative / path.Rel, and filesystem.Enumerate.
\<close>

record env =
  os_Stat :: "string \<Rightarrow> error + FileInfo"
  filepath_Abs :: "string \<Rightarrow> error + string"
  filepath_Dir :: "string \<Rightarrow> string"
  filepath_Join :: "string \<Rightarrow> string \<Rightarrow> string"
  os_Open :: "string \<Rightarrow> error option"
  dir_Readdir :: "string \<Rightarrow> string list"
  dir_Readdirnames :: "string \<Rightarrow> string list"
  fingerprint_Create :: "string \<Rightarrow> error + string"
  fingerprint_CreateWith :: "string \<Rightarrow> string \<Rightarrow> string \<Rightarrow> error + string"
  common_MakeRelative :: "string \<Rightarrow> string"
  filesystem_Enumerate :: "string list \<Rightarrow> error + string list"

text \<open>strings.Index: the index of the first occurrence of \<open>sep\<close> in \<open>s\<close>, or \<open>-1\<close>.\<close>

fun strings_Index :: "string \<Rightarrow> string \<Rightarrow> int" where
  "strings_Index [] sep = (if sep = [] then 0 else - 1)"
| "strings_Index (c # s) sep =
     (if prefix sep (c # s) then 0
      else (let i = strings_Index s sep in if i = - 1 then - 1 else i + 1))"

subsection \<open>The entity store\<close>

record File =
  file_Id :: nat
  file_Path :: string
  file_Fingerprint :: string
  file_ModTimestamp :: gotime

record Tag =
  tag_Id :: nat
  tag_Name :: string

record FileTag =
  filetag_Id :: nat
  filetag_FileId :: nat
  filetag_TagId :: nat

datatype dbop =
    OpOpen | OpFileByPath | OpFilesByDirectory | OpFilesByFingerprint | OpAddFile
  | OpUpdateFile | OpTagByName | OpAddTag | OpFileTagByFileIdAndTagId | OpAddFileTag
  | OpBegin | OpSettings | OpDuplicateFiles

record Settings =
  FileFingerprintAlgorithm :: string
  DirectoryFingerprintAlgorithm :: string

text \<open>
  The three tables in insertion order, the settings read by the dupes command, and
  \<open>db_fails\<close>, the operations that currently end in a persistence error.
\<close>

record Database =
  db_files :: "File list"
  db_tags :: "Tag list"
  db_fileTags :: "FileTag list"
  db_settings :: Settings
  db_fails :: "dbop \<Rightarrow> bool"

definition next_id :: "nat list \<Rightarrow> nat" where
  "next_id ids = Suc (fold max ids 0)"

text \<open>
  Modelled from the spec: database.Open is not in the sources; it hands out the
  process-wide store or fails.
\<close>

definition database_Open :: "Database \<Rightarrow> error option" where
  "database_Open db = (if db_fails db OpOpen then Some ErrStore else None)"

text \<open>
  Modelled from the spec: FileByPath is not in the sources; contract
  \<^verbatim>\<open>fileByPath(path) -> File?\<close> over unique absolute paths.
\<close>

definition FileByPath :: "Database \<Rightarrow> string \<Rightarrow> error + File option" where
  "FileByPath db path =
     (if db_fails db OpFileByPath then Inl ErrStore
      else Inr (find (\<lambda>f. file_Path f = path) (db_files db)))"

text \<open>
  A path strictly beneath a directory: it extends the directory's path and a separator.
  The path of the root directory is the separator itself.
\<close>

definition beneath :: "string \<Rightarrow> string \<Rightarrow> bool" where
  "beneath dir path \<longleftrightarrow>
     path \<noteq> dir \<and> prefix (if dir = ''/'' then dir else dir @ ''/'') path"

text \<open>
  Modelled from the spec: FilesByDirectory is not in the sources; contract
  \<^verbatim>\<open>filesByDirectoryPrefix(path) -> [File]\<close>, all Files under that directory prefix.
\<close>

definition FilesByDirectory :: "Database \<Rightarrow> string \<Rightarrow> error + File list" where
  "FilesByDirectory db path =
     (if db_fails db OpFilesByDirectory then Inl ErrStore
      else Inr (filter (\<lambda>f. beneath path (file_Path f)) (db_files db)))"

text \<open>
  Modelled from the spec: FilesByFingerprint is not in the sources; contract
  \<^verbatim>\<open>filesByFingerprint(fp) -> [File]\<close>, all stored Files sharing that fingerprint.
\<close>

definition FilesByFingerprint :: "Database \<Rightarrow> string \<Rightarrow> error + File list" where
  "FilesByFingerprint db fp =
     (if db_fails db OpFilesByFingerprint then Inl ErrStore
      else Inr (filter (\<lambda>f. file_Fingerprint f = fp) (db_files db)))"

text \<open>
  Modelled from the spec: AddFile is not in the sources; contract
  \<^verbatim>\<open>addFile(path, fingerprint, modTime) -> File\<close>; the path is unique, so a second record
  for a stored path is a persistence failure.
\<close>

definition AddFile :: "Database \<Rightarrow> string \<Rightarrow> string \<Rightarrow> gotime \<Rightarrow> (error + File) \<times> Database" where
  "AddFile db path fp modTime =
     (if db_fails db OpAddFile \<or> path \<in> set (map file_Path (db_files db)) then (Inl ErrStore, db)
      else (let file = \<lparr>file_Id = next_id (map file_Id (db_files db)), file_Path = path,
                        file_Fingerprint = fp, file_ModTimestamp = modTime\<rparr>
            in (Inr file, db\<lparr>db_files := db_files db @ [file]\<rparr>)))"

text \<open>
  Modelled from the spec: UpdateFile is not in the sources; contract
  \<^verbatim>\<open>updateFile(id, path, fingerprint, modTime) -> void\<close>.
\<close>

definition UpdateFile :: "Database \<Rightarrow> nat \<Rightarrow> string \<Rightarrow> string \<Rightarrow> gotime \<Rightarrow> error option \<times> Database" where
  "UpdateFile db fileId path fp modTime =
     (if db_fails db OpUpdateFile then (Some ErrStore, db)
      else (None, db\<lparr>db_files :=
              map (\<lambda>f. if file_Id f = fileId
                        then f\<lparr>file_Path := path, file_Fingerprint := fp, file_ModTimestamp := modTime\<rparr>
                        else f) (db_files db)\<rparr>))"

text \<open>
  Modelled from the spec: TagByName and AddTag are not in the sources; contract
  \<^verbatim>\<open>tagByName(name) -> Tag?\<close>, \<^verbatim>\<open>addTag(name) -> Tag\<close>.
\<close>

definition TagByName :: "Database \<Rightarrow> string \<Rightarrow> error + Tag option" where
  "TagByName db name =
     (if db_fails db OpTagByName then Inl ErrStore
      else Inr (find (\<lambda>t. tag_Name t = name) (db_tags db)))"

definition AddTag :: "Database \<Rightarrow> string \<Rightarrow> (error + Tag) \<times> Database" where
  "AddTag db name =
     (if db_fails db OpAddTag then (Inl ErrStore, db)
      else (let tag = \<lparr>tag_Id = next_id (map tag_Id (db_tags db)), tag_Name = name\<rparr>
            in (Inr tag, db\<lparr>db_tags := db_tags db @ [tag]\<rparr>)))"

text \<open>
  Modelled from the spec: FileTagByFileIdAndTagId and AddFileTag are not in the sources;
  contract \<^verbatim>\<open>fileTagByFileAndTag(fileId, tagId) -> FileTag?\<close>,
  \<^verbatim>\<open>addFileTag(fileId, tagId) -> FileTag\<close>.
\<close>

definition FileTagByFileIdAndTagId :: "Database \<Rightarrow> nat \<Rightarrow> nat \<Rightarrow> error + FileTag option" where
  "FileTagByFileIdAndTagId db fileId tagId =
     (if db_fails db OpFileTagByFileIdAndTagId then Inl ErrStore
      else Inr (find (\<lambda>ft. filetag_FileId ft = fileId \<and> filetag_TagId ft = tagId) (db_fileTags db)))"

definition AddFileTag :: "Database \<Rightarrow> nat \<Rightarrow> nat \<Rightarrow> (error + FileTag) \<times> Database" where
  "AddFileTag db fileId tagId =
     (if db_fails db OpAddFileTag then (Inl ErrStore, db)
      else (let ft = \<lparr>filetag_Id = next_id (map filetag_Id (db_fileTags db)),
                      filetag_FileId = fileId, filetag_TagId = tagId\<rparr>
            in (Inr ft, db\<lparr>db_fileTags := db_fileTags db @ [ft]\<rparr>)))"

subsection \<open>The tag command\<close>

text \<open>
  The functions of the tag command return their Go result, the store as they leave it and
  the warnings they wrote.
\<close>

text \<open>
  applyTag: the three strings.Index checks, then \<^verbatim>\<open>tagName[0] == '-'\<close>, which panics on the
  empty string; then the tag is looked up or created (with a warning before the creation)
  and the association is looked up or created. The returned FileTag is the looked-up one
  (nil when it was just created).
\<close>

definition applyTag ::
  "Database \<Rightarrow> string \<Rightarrow> nat \<Rightarrow> string \<Rightarrow> (error + Tag \<times> FileTag option) \<times> Database \<times> event list" where
  "applyTag db path fileId tagName =
     (if strings_Index tagName '','' \<noteq> - 1 then (Inl (ErrNew ''Tag names cannot contain commas.''), db, [])
      else if strings_Index tagName ''='' \<noteq> - 1 then (Inl (ErrNew ''Tag names cannot contain '='.''), db, [])
      else if strings_Index tagName '' '' \<noteq> - 1 then (Inl (ErrNew ''Tag names cannot contain spaces.''), db, [])
      else (case tagName of
              [] \<Rightarrow> (Inl (RuntimePanic ''index out of range''), db, [])
            | c # _ \<Rightarrow>
               if c = CHR ''-'' then (Inl (ErrNew ''Tag names cannot start '-'.''), db, [])
               else (case TagByName db tagName of
                       Inl err \<Rightarrow> (Inl err, db, [])
                     | Inr found \<Rightarrow>
                        (case (case found of
                                 Some tag \<Rightarrow> (Inr tag, db, [])
                               | None \<Rightarrow>
                                  (fst (AddTag db tagName), snd (AddTag db tagName),
                                   [Warn (''New tag '' @ [CHR 0x27] @ tagName @ [CHR 0x27] @ ''.'')])) of
                           (Inl err, db1, warnings) \<Rightarrow> (Inl err, db1, warnings)
                         | (Inr tag, db1, warnings) \<Rightarrow>
                            (case FileTagByFileIdAndTagId db1 fileId (tag_Id tag) of
                               Inl err \<Rightarrow> (Inl err, db1, warnings)
                             | Inr None \<Rightarrow>
                                (case AddFileTag db1 fileId (tag_Id tag) of
                                   (Inl err, db2) \<Rightarrow> (Inl err, db2, warnings)
                                 | (Inr _, db2) \<Rightarrow> (Inr (tag, None), db2, warnings))
                             | Inr (Some fileTag) \<Rightarrow> (Inr (tag, Some fileTag), db1, warnings))))))"

text \<open>
  validateFileAdd: a directory is refused when the store holds files beneath it, anything
  else when the store holds a record for filepath.Dir of the path.
\<close>

definition validateFileAdd :: "env \<Rightarrow> Database \<Rightarrow> string \<Rightarrow> error option" where
  "validateFileAdd e db path =
     (case os_Stat e path of
        Inl err \<Rightarrow> Some err
      | Inr info \<Rightarrow>
         if info_IsDir info then
           (case FilesByDirectory db path of
              Inl err \<Rightarrow> Some err
            | Inr files \<Rightarrow>
               if length files > 0
               then Some (ErrNew (''Cannot tag directory '' @ [CHR 0x27] @ path @ [CHR 0x27] @ '' as it contains tagged items.''))
               else None)
         else
           (case FileByPath db (filepath_Dir e path) of
              Inl err \<Rightarrow> Some err
            | Inr file \<Rightarrow>
               if file \<noteq> None
               then Some (ErrNew (''Cannot tag file '' @ [CHR 0x27] @ path @ [CHR 0x27] @ '' as its parent directory is tagged.''))
               else None))"

text \<open>The warning lines of addFile for a new file whose fingerprint is already stored.\<close>

definition duplicate_warnings :: "env \<Rightarrow> File list \<Rightarrow> event list" where
  "duplicate_warnings e files =
     (if length files > 0
      then Warn ''File is a duplicate of previously tagged files.''
           # map (\<lambda>duplicateFile. Warn (''  '' @ common_MakeRelative e (file_Path duplicateFile))) files
      else [])"

text \<open>
  addFile: fingerprint, store lookup, validation and stat, in the order of the source, and
  only then the branch on whether the lookup found a record. The result of UpdateFile is
  dropped by the source; the record returned for an existing file is the looked-up one.
\<close>

definition addFile :: "env \<Rightarrow> Database \<Rightarrow> string \<Rightarrow> (error + File) \<times> Database \<times> event list" where
  "addFile e db path =
     (case fingerprint_Create e path of
        Inl err \<Rightarrow> (Inl err, db, [])
      | Inr fingerprint \<Rightarrow>
         (case FileByPath db path of
            Inl err \<Rightarrow> (Inl err, db, [])
          | Inr file \<Rightarrow>
             (case validateFileAdd e db path of
                Some err \<Rightarrow> (Inl err, db, [])
              | None \<Rightarrow>
                 (case os_Stat e path of
                    Inl err \<Rightarrow> (Inl err, db, [])
                  | Inr info \<Rightarrow>
                     (let modTime = info_ModTime info in
                      case file of
                        None \<Rightarrow>
                          (case FilesByFingerprint db fingerprint of
                             Inl err \<Rightarrow> (Inl err, db, [])
                           | Inr files \<Rightarrow>
                              (fst (AddFile db path fingerprint modTime),
                               snd (AddFile db path fingerprint modTime),
                               duplicate_warnings e files))
                      | Some f \<Rightarrow>
                          if Unix (file_ModTimestamp f) \<noteq> Unix modTime
                          then (Inr f, snd (UpdateFile db (file_Id f) (file_Path f) fingerprint modTime), [])
                          else (Inr f, db, []))))))"

text \<open>The loop of tagPath over the tag names: the first error ends it.\<close>

fun applyTags ::
  "Database \<Rightarrow> string \<Rightarrow> nat \<Rightarrow> string list \<Rightarrow> error option \<times> Database \<times> event list" where
  "applyTags db path fileId [] = (None, db, [])"
| "applyTags db path fileId (tagName # tagNames) =
     (case applyTag db path fileId tagName of
        (Inl err, db1, warnings) \<Rightarrow> (Some err, db1, warnings)
      | (Inr _, db1, warnings) \<Rightarrow>
         (case applyTags db1 path fileId tagNames of
            (r, db2, warnings2) \<Rightarrow> (r, db2, warnings @ warnings2)))"

definition tagPath ::
  "env \<Rightarrow> Database \<Rightarrow> string \<Rightarrow> string list \<Rightarrow> error option \<times> Database \<times> event list" where
  "tagPath e db path tagNames =
     (case database_Open db of
        Some err \<Rightarrow> (Some err, db, [])
      | None \<Rightarrow>
         (case filepath_Abs e path of
            Inl err \<Rightarrow> (Some err, db, [])
          | Inr absPath \<Rightarrow>
             (case addFile e db absPath of
                (Inl err, db1, warnings) \<Rightarrow> (Some err, db1, warnings)
              | (Inr file, db1, warnings) \<Rightarrow>
                 (case applyTags db1 path (file_Id file) tagNames of
                    (r, db2, warnings2) \<Rightarrow> (r, db2, warnings @ warnings2)))))"

fun tagPaths ::
  "env \<Rightarrow> Database \<Rightarrow> string list \<Rightarrow> string list \<Rightarrow> error option \<times> Database \<times> event list" where
  "tagPaths e db [] tagNames = (None, db, [])"
| "tagPaths e db (path # paths) tagNames =
     (case tagPath e db path tagNames of
        (Some err, db1, warnings) \<Rightarrow> (Some err, db1, warnings)
      | (None, db1, warnings) \<Rightarrow>
         (case tagPaths e db1 paths tagNames of
            (r, db2, warnings2) \<Rightarrow> (r, db2, warnings @ warnings2)))"

subsection \<open>The status command\<close>

datatype Status = UNTAGGED | TAGGED | MODIFIED | NESTED | MISSING

record StatusReport =
  Tagged :: "string list"
  Modified :: "string list"
  Missing :: "string list"
  Untagged :: "string list"
  Nested :: "string list"

definition NewReport :: StatusReport where
  "NewReport = \<lparr>Tagged = [], Modified = [], Missing = [], Untagged = [], Nested = []\<rparr>"

definition os_IsNotExist :: "error \<Rightarrow> bool" where
  "os_IsNotExist err = (err = ErrNotExist)"

definition os_IsPermission :: "error \<Rightarrow> bool" where
  "os_IsPermission err = (err = ErrPermission)"

definition isDir :: "env \<Rightarrow> string \<Rightarrow> bool" where
  "isDir e path = (case os_Stat e path of Inl err \<Rightarrow> False | Inr info \<Rightarrow> info_IsDir info)"

text \<open>
  Modelled from the spec: common.IsDir is not in the sources; "the path is a directory",
  taken to be what the status command's own isDir computes.
\<close>

definition common_IsDir :: "env \<Rightarrow> string \<Rightarrow> bool" where
  "common_IsDir e path = isDir e path"

text \<open>
  addToReport always returns nil; its panic branch needs a status outside the five
  constants, which the datatype excludes. The model returns the report alone.
\<close>

definition addToReport :: "env \<Rightarrow> string \<Rightarrow> Status \<Rightarrow> StatusReport \<Rightarrow> StatusReport" where
  "addToReport e path status report =
     (let relPath = common_MakeRelative e path in
      case status of
        UNTAGGED \<Rightarrow> report\<lparr>Untagged := Untagged report @ [relPath]\<rparr>
      | TAGGED \<Rightarrow> report\<lparr>Tagged := Tagged report @ [relPath]\<rparr>
      | MODIFIED \<Rightarrow> report\<lparr>Modified := Modified report @ [relPath]\<rparr>
      | MISSING \<Rightarrow> report\<lparr>Missing := Missing report @ [relPath]\<rparr>
      | NESTED \<Rightarrow> report\<lparr>Nested := Nested report @ [relPath]\<rparr>)"

definition getTaggedPathStatus :: "env \<Rightarrow> File \<Rightarrow> error + Status" where
  "getTaggedPathStatus e entry =
     (case os_Stat e (file_Path entry) of
        Inl err \<Rightarrow> if os_IsNotExist err then Inr MISSING else Inl err
      | Inr info \<Rightarrow>
         if Unix (file_ModTimestamp entry) = Unix (info_ModTime info) then Inr TAGGED
         else Inr MODIFIED)"

text \<open>
  getStatus and getUntaggedPathStatus call each other down the directory tree, which need
  not be finite in depth (a link may lead back up), so getStatus takes fuel: one unit per
  level, \<open>None\<close> when it is used up. \<open>scanEntries\<close> is the loop of getUntaggedPathStatus
  over the entries; \<open>classify\<close> is the recursive call of getStatus.
\<close>

fun scanEntries ::
  "(string \<Rightarrow> (error + Status) option) \<Rightarrow> env \<Rightarrow> string \<Rightarrow> string list \<Rightarrow> (error + Status) option" where
  "scanEntries classify e path [] = Some (Inr UNTAGGED)"
| "scanEntries classify e path (entry # entries) =
     (case classify (filepath_Join e path entry) of
        None \<Rightarrow> None
      | Some (Inl err) \<Rightarrow> Some (Inl err)
      | Some (Inr status) \<Rightarrow>
         if status = TAGGED \<or> status = MODIFIED \<or> status = NESTED then Some (Inr NESTED)
         else scanEntries classify e path entries)"

definition getUntaggedPathStatus ::
  "(string \<Rightarrow> (error + Status) option) \<Rightarrow> env \<Rightarrow> string \<Rightarrow> (error + Status) option" where
  "getUntaggedPathStatus classify e path =
     (if common_IsDir e path then
        (case os_Open e path of
           Some err \<Rightarrow> Some (Inl err)
         | None \<Rightarrow> scanEntries classify e path (dir_Readdir e path))
      else Some (Inr UNTAGGED))"

primrec getStatus :: "nat \<Rightarrow> env \<Rightarrow> Database \<Rightarrow> string \<Rightarrow> (error + Status) option" where
  "getStatus 0 e db path = None"
| "getStatus (Suc n) e db path =
     (case FileByPath db path of
        Inl err \<Rightarrow> Some (Inl err)
      | Inr (Some entry) \<Rightarrow> Some (getTaggedPathStatus e entry)
      | Inr None \<Rightarrow> getUntaggedPathStatus (getStatus n e db) e path)"

text \<open>The first loop of the directory branch of status: every entry goes to the report.\<close>

fun reportEntries ::
  "nat \<Rightarrow> env \<Rightarrow> Database \<Rightarrow> string \<Rightarrow> string list \<Rightarrow> StatusReport \<Rightarrow> (error + StatusReport) option" where
  "reportEntries n e db absPath [] report = Some (Inr report)"
| "reportEntries n e db absPath (entryName # entryNames) report =
     (let entryPath = filepath_Join e absPath entryName in
      case getStatus n e db entryPath of
        None \<Rightarrow> None
      | Some (Inl err) \<Rightarrow> Some (Inl err)
      | Some (Inr status) \<Rightarrow>
         reportEntries n e db absPath entryNames (addToReport e entryPath status report))"

text \<open>The second loop: the stored files beneath the directory that are missing.\<close>

fun reportMissing ::
  "nat \<Rightarrow> env \<Rightarrow> Database \<Rightarrow> File list \<Rightarrow> StatusReport \<Rightarrow> (error + StatusReport) option" where
  "reportMissing n e db [] report = Some (Inr report)"
| "reportMissing n e db (file # files) report =
     (case getStatus n e db (file_Path file) of
        None \<Rightarrow> None
      | Some (Inl err) \<Rightarrow> Some (Inl err)
      | Some (Inr status) \<Rightarrow>
         reportMissing n e db files
           (if status = MISSING then addToReport e (file_Path file) status report else report))"

text \<open>
  The body of the loop of status for one argument. The source updates the report in
  place and Exec throws it away on an error, so an error carries no report here. The
  errors of Readdirnames and of FilesByDirectory are dropped by the source: the loops run
  over whatever came back (nothing, for a failed store query).
\<close>

definition statusPath ::
  "nat \<Rightarrow> env \<Rightarrow> Database \<Rightarrow> bool \<Rightarrow> StatusReport \<Rightarrow> string \<Rightarrow> (error + StatusReport) option" where
  "statusPath n e db showDirectory report path =
     (case filepath_Abs e path of
        Inl err \<Rightarrow> Some (Inl err)
      | Inr absPath \<Rightarrow>
         if \<not> showDirectory \<and> isDir e absPath then
           (case getStatus n e db absPath of
              None \<Rightarrow> None
            | Some (Inl err) \<Rightarrow> Some (Inl err)
            | Some (Inr status) \<Rightarrow>
               if status = TAGGED \<or> status = MODIFIED \<or> status = MISSING
               then Some (Inr (addToReport e absPath status report))
               else
                 (case os_Open e absPath of
                    Some err \<Rightarrow> Some (Inl err)
                  | None \<Rightarrow>
                     (case reportEntries n e db absPath (dir_Readdirnames e absPath) report of
                        None \<Rightarrow> None
                      | Some (Inl err) \<Rightarrow> Some (Inl err)
                      | Some (Inr report1) \<Rightarrow>
                         reportMissing n e db
                           (case FilesByDirectory db absPath of Inl err \<Rightarrow> [] | Inr files \<Rightarrow> files)
                           report1)))
         else
           (case getStatus n e db absPath of
              None \<Rightarrow> None
            | Some (Inl err) \<Rightarrow> Some (Inl err)
            | Some (Inr status) \<Rightarrow>
               Some (Inr (if status = MISSING then addToReport e absPath status report else report))))"

fun statusPaths ::
  "nat \<Rightarrow> env \<Rightarrow> Database \<Rightarrow> bool \<Rightarrow> StatusReport \<Rightarrow> string list \<Rightarrow> (error + StatusReport) option" where
  "statusPaths n e db showDirectory report [] = Some (Inr report)"
| "statusPaths n e db showDirectory report (path # paths) =
     (case statusPath n e db showDirectory report path of
        None \<Rightarrow> None
      | Some (Inl err) \<Rightarrow> Some (Inl err)
      | Some (Inr report1) \<Rightarrow> statusPaths n e db showDirectory report1 paths)"

definition status ::
  "nat \<Rightarrow> env \<Rightarrow> Database \<Rightarrow> string list \<Rightarrow> StatusReport \<Rightarrow> bool \<Rightarrow> (error + StatusReport) option" where
  "status n e db paths report showDirectory =
     (let paths1 = (if length paths = 0 then [''.''] else paths) in
      case database_Open db of
        Some err \<Rightarrow> Some (Inl err)
      | None \<Rightarrow> statusPaths n e db showDirectory report paths1)"

subsection \<open>The dupes command\<close>

text \<open>Modelled from the spec: Begin and Settings of the store are not in the sources.\<close>

definition store_Begin :: "Database \<Rightarrow> error option" where
  "store_Begin db = (if db_fails db OpBegin then Some ErrStore else None)"

definition store_Settings :: "Database \<Rightarrow> error + Settings" where
  "store_Settings db = (if db_fails db OpSettings then Inl ErrStore else Inr (db_settings db))"

text \<open>
  Modelled from the spec: DuplicateFiles is not in the sources; "partition all Files in the
  store by fingerprint value; return only groups with at least 2 members", "Files with the
  empty fingerprint value are excluded from all groups".
\<close>

definition DuplicateFiles :: "Database \<Rightarrow> error + File list list" where
  "DuplicateFiles db =
     (if db_fails db OpDuplicateFiles then Inl ErrStore
      else Inr (filter (\<lambda>fileSet. 2 \<le> length fileSet)
                  (map (\<lambda>fp. filter (\<lambda>f. file_Fingerprint f = fp) (db_files db))
                     (remdups (filter (\<lambda>fp. fp \<noteq> []) (map file_Fingerprint (db_files db)))))))"

text \<open>Decimal rendering of a length, for the \<^verbatim>\<open>%v\<close> of the log and header lines.\<close>

fun digits :: "nat \<Rightarrow> nat \<Rightarrow> string" where
  "digits 0 n = []"
| "digits (Suc fuel) n =
     (if n < 10 then [char_of (48 + n)] else digits fuel (n div 10) @ [char_of (48 + n mod 10)])"

definition show_nat :: "nat \<Rightarrow> string" where
  "show_nat n = digits (Suc n) n"

fun printFileSets :: "env \<Rightarrow> nat \<Rightarrow> File list list \<Rightarrow> event list" where
  "printFileSets e index [] = []"
| "printFileSets e index (fileSet # fileSets) =
     (if index > 0 then [Println []] else [])
     @ [Println (''Set of '' @ show_nat (length fileSet) @ '' duplicates:'')]
     @ map (\<lambda>file. Println (''  '' @ common_MakeRelative e (file_Path file))) fileSet
     @ printFileSets e (Suc index) fileSets"

definition findDuplicatesInDb :: "env \<Rightarrow> Database \<Rightarrow> event list \<times> error option" where
  "findDuplicatesInDb e db =
     (case DuplicateFiles db of
        Inl err \<Rightarrow> ([Info ''identifying duplicate files.''],
                     Some (Errorf ''could not identify duplicate files: '' err))
      | Inr fileSets \<Rightarrow>
         ([Info ''identifying duplicate files.'',
           Info (''found '' @ show_nat (length fileSets) @ '' sets of duplicate files.'')]
          @ printFileSets e 0 fileSets, None))"

text \<open>
  The first loop of findDuplicatesOf: every path is stat'ed; a missing or forbidden path
  is warned about and sets \<open>wereErrors\<close>, any other failure ends the command at once.
  The result is the warnings written so far and either that failure or \<open>wereErrors\<close>.
\<close>

fun statPaths :: "env \<Rightarrow> bool \<Rightarrow> string list \<Rightarrow> event list \<times> (error + bool)" where
  "statPaths e wereErrors [] = ([], Inr wereErrors)"
| "statPaths e wereErrors (path # paths) =
     (case os_Stat e path of
        Inl err \<Rightarrow>
          if os_IsNotExist err then
            (case statPaths e True paths of
               (events, r) \<Rightarrow> (Warn (path @ '': no such file'') # events, r))
          else if os_IsPermission err then
            (case statPaths e True paths of
               (events, r) \<Rightarrow> (Warn (path @ '': permission denied'') # events, r))
          else ([], Inl err)
      | Inr info \<Rightarrow> statPaths e wereErrors paths)"

text \<open>
  The second loop: \<open>len\<close> is \<^verbatim>\<open>len(paths)\<close>, \<open>first\<close> the flag of the same name. The
  result is what was written and the error that ended the loop, if any.
\<close>

fun probePaths ::
  "env \<Rightarrow> Database \<Rightarrow> Settings \<Rightarrow> nat \<Rightarrow> bool \<Rightarrow> string list \<Rightarrow> event list \<times> error option" where
  "probePaths e db settings len first [] = ([], None)"
| "probePaths e db settings len first (path # paths) =
     (case fingerprint_CreateWith e path (FileFingerprintAlgorithm settings)
             (DirectoryFingerprintAlgorithm settings) of
        Inl err \<Rightarrow>
          ([Info (path @ '': identifying duplicate files.'')],
           Some (Errorf (path @ '': could not create fingerprint: '') err))
      | Inr fp \<Rightarrow>
          if fp = [] then
            (case probePaths e db settings len first paths of
               (events, r) \<Rightarrow> (Info (path @ '': identifying duplicate files.'') # events, r))
          else
            (case FilesByFingerprint db fp of
               Inl err \<Rightarrow>
                 ([Info (path @ '': identifying duplicate files.'')],
                  Some (Errorf (path @ '': could not retrieve files matching fingerprint ''
                                @ [CHR 0x27] @ fp @ [CHR 0x27] @ '': '') err))
             | Inr files \<Rightarrow>
                 (case filepath_Abs e path of
                    Inl err \<Rightarrow>
                      ([Info (path @ '': identifying duplicate files.'')],
                       Some (Errorf (path @ '': could not determine absolute path: '') err))
                  | Inr absPath \<Rightarrow>
                      (let dupes = filter (\<lambda>file. file_Path file \<noteq> absPath) files in
                       if len > 1 \<and> length dupes > 0 then
                         (case probePaths e db settings len False paths of
                            (events, r) \<Rightarrow>
                              (Info (path @ '': identifying duplicate files.'')
                               # (if first then [] else [Println []])
                               @ [Println (path @ '':'')]
                               @ map (\<lambda>dupe. Println (''  '' @ common_MakeRelative e (file_Path dupe))) dupes
                               @ events, r))
                       else
                         (case probePaths e db settings len first paths of
                            (events, r) \<Rightarrow>
                              (Info (path @ '': identifying duplicate files.'')
                               # map (\<lambda>dupe. Println (common_MakeRelative e (file_Path dupe))) dupes
                               @ events, r))))))"

definition findDuplicatesOf ::
  "env \<Rightarrow> Database \<Rightarrow> string list \<Rightarrow> bool \<Rightarrow> event list \<times> error option" where
  "findDuplicatesOf e db paths recursive =
     (case store_Settings db of
        Inl err \<Rightarrow> ([], Some err)
      | Inr settings \<Rightarrow>
         (case statPaths e False paths of
            (warnings, Inl err) \<Rightarrow> (warnings, Some err)
          | (warnings, Inr wereErrors) \<Rightarrow>
             if wereErrors then (warnings, Some ErrBlank)
             else if recursive then
               (case filesystem_Enumerate e paths of
                  Inl err \<Rightarrow> (warnings, Some (Errorf ''could not enumerate paths: '' err))
                | Inr p \<Rightarrow>
                   (case probePaths e db settings (length p) True p of
                      (events, r) \<Rightarrow> (warnings @ events, r)))
             else
               (case probePaths e db settings (length paths) True paths of
                  (events, r) \<Rightarrow> (warnings @ events, r))))"

definition dupesExec :: "env \<Rightarrow> Database \<Rightarrow> bool \<Rightarrow> string list \<Rightarrow> event list \<times> error option" where
  "dupesExec e store recursive args =
     (case store_Begin store of
        Some err \<Rightarrow> ([], Some err)
      | None \<Rightarrow>
         if length args = 0 then findDuplicatesInDb e store
         else findDuplicatesOf e store args recursive)"

section \<open>Properties\<close>

subsection \<open>Vocabulary of the properties\<close>



text \<open>\<open>a\<close> is a strict ancestor of \<open>p\<close> in the path hierarchy.\<close>

definition strict_ancestor :: "string \<Rightarrow> string \<Rightarrow> bool" where
  "strict_ancestor a p \<longleftrightarrow> beneath a p"

text \<open>
  What validateFileAdd looks for: below a directory, any stored file; for anything else, a
  record of its immediate parent.
\<close>

definition hierarchyConflict :: "env \<Rightarrow> Database \<Rightarrow> string \<Rightarrow> FileInfo \<Rightarrow> bool" where
  "hierarchyConflict e db path info =
     (if info_IsDir info then (\<exists>g\<in>set (db_files db). beneath path (file_Path g))
      else (\<exists>g\<in>set (db_files db). file_Path g = filepath_Dir e path))"

text \<open>
  The entries at most \<open>n\<close> levels below a directory: its direct entries, each followed by
  the entries below it when it is a directory itself.
\<close>

primrec descendants :: "nat \<Rightarrow> env \<Rightarrow> string \<Rightarrow> string list" where
  "descendants 0 e path = []"
| "descendants (Suc n) e path =
     (if common_IsDir e path
      then concat (map (\<lambda>x. filepath_Join e path x # descendants n e (filepath_Join e path x))
                     (dir_Readdir e path))
      else [])"

text \<open>The statuses that make the enclosing directory NESTED.\<close>

definition marked :: "Status \<Rightarrow> bool" where
  "marked st \<longleftrightarrow> st = TAGGED \<or> st = MODIFIED \<or> st = NESTED"

text \<open>The directories below \<open>path\<close> nest at most \<open>n\<close> levels deep.\<close>

fun within_depth :: "nat \<Rightarrow> env \<Rightarrow> string \<Rightarrow> bool" where
  "within_depth 0 e path = (common_IsDir e path \<longrightarrow> dir_Readdir e path = [])"
| "within_depth (Suc n) e path =
     (common_IsDir e path \<longrightarrow> (\<forall>x\<in>set (dir_Readdir e path). within_depth n e (filepath_Join e path x)))"

text \<open>
  No failure while classifying \<open>path\<close> down to \<open>n\<close> levels: the store lookup works, and for
  the path and every entry beneath it stat succeeds or fails with not-found, and every
  directory among them can be opened.
\<close>

definition stat_ok :: "env \<Rightarrow> string \<Rightarrow> bool" where
  "stat_ok e path = (case os_Stat e path of Inl err \<Rightarrow> err = ErrNotExist | Inr info \<Rightarrow> True)"

definition no_failure :: "nat \<Rightarrow> env \<Rightarrow> Database \<Rightarrow> string \<Rightarrow> bool" where
  "no_failure n e db path \<longleftrightarrow>
     \<not> db_fails db OpFileByPath
     \<and> (\<forall>d\<in>set (path # descendants n e path).
           stat_ok e d \<and> (common_IsDir e d \<longrightarrow> os_Open e d = None))"

text \<open>The warning that the first loop of findDuplicatesOf writes for a path, if any.\<close>

definition stat_warning :: "env \<Rightarrow> string \<Rightarrow> event list" where
  "stat_warning e path =
     (case os_Stat e path of
        Inl err \<Rightarrow> if err = ErrNotExist then [Warn (path @ '': no such file'')]
                    else if err = ErrPermission then [Warn (path @ '': permission denied'')]
                    else []
      | Inr info \<Rightarrow> [])"

definition stat_unavailable :: "env \<Rightarrow> string \<Rightarrow> bool" where
  "stat_unavailable e path \<longleftrightarrow> os_Stat e path = Inl ErrNotExist \<or> os_Stat e path = Inl ErrPermission"

text \<open>The candidates whose fresh fingerprint is the empty one.\<close>

definition empty_fingerprint :: "env \<Rightarrow> Settings \<Rightarrow> string \<Rightarrow> bool" where
  "empty_fingerprint e settings path \<longleftrightarrow>
     fingerprint_CreateWith e path (FileFingerprintAlgorithm settings)
       (DirectoryFingerprintAlgorithm settings) = Inr []"

definition is_Println :: "event \<Rightarrow> bool" where
  "is_Println ev = (case ev of Println line \<Rightarrow> True | _ \<Rightarrow> False)"

subsection \<open>A small filesystem and some stores\<close>

text \<open>
  The directory \<^verbatim>\<open>/a\<close> holds the directory \<^verbatim>\<open>b\<close>, which holds the file \<^verbatim>\<open>c\<close>; \<^verbatim>\<open>/f\<close> and
  \<^verbatim>\<open>/empty\<close> are files, the latter with the empty fingerprint; \<^verbatim>\<open>/locked\<close> cannot be
  stat'ed for lack of permission; nothing else exists.
\<close>

definition env_tree :: env where
  "env_tree = \<lparr>
     os_Stat = (\<lambda>p. if p = ''/a'' \<or> p = ''/a/b''
                      then Inr \<lparr>info_IsDir = True, info_ModTime = \<lparr>sec = 100, nsec = 0\<rparr>\<rparr>
                      else if p = ''/a/b/c'' \<or> p = ''/f'' \<or> p = ''/empty''
                      then Inr \<lparr>info_IsDir = False, info_ModTime = \<lparr>sec = 200, nsec = 5\<rparr>\<rparr>
                      else if p = ''/locked'' then Inl ErrPermission
                      else Inl ErrNotExist),
     filepath_Abs = Inr,
     filepath_Dir = (\<lambda>p. if p = ''/a/b/c'' then ''/a/b'' else if p = ''/a/b'' then ''/a'' else ''/''),
     filepath_Join = (\<lambda>d n. d @ ''/'' @ n),
     os_Open = (\<lambda>p. if p = ''/a'' \<or> p = ''/a/b'' then None else Some ErrNotExist),
     dir_Readdir = (\<lambda>p. if p = ''/a'' then [''b''] else if p = ''/a/b'' then [''c''] else []),
     dir_Readdirnames = (\<lambda>p. if p = ''/a'' then [''b''] else if p = ''/a/b'' then [''c''] else []),
     fingerprint_Create = (\<lambda>p. Inr (''fp:'' @ p)),
     fingerprint_CreateWith = (\<lambda>p fileAlg dirAlg. if p = ''/empty'' then Inr [] else Inr (''fp:'' @ p)),
     common_MakeRelative = (\<lambda>p. p),
     filesystem_Enumerate = Inr\<rparr>"

definition db_empty :: Database where
  "db_empty = \<lparr>db_files = [], db_tags = [], db_fileTags = [],
     db_settings = \<lparr>FileFingerprintAlgorithm = ''dynamic:SHA256'', DirectoryFingerprintAlgorithm = ''none''\<rparr>,
     db_fails = (\<lambda>op. False)\<rparr>"

text \<open>The store after tagging \<^verbatim>\<open>/a\<close> and then \<^verbatim>\<open>/a/b/c\<close> with \<^verbatim>\<open>x\<close>.\<close>

definition db_a_c :: Database where
  "db_a_c = db_empty\<lparr>
     db_files := [\<lparr>file_Id = 1, file_Path = ''/a'', file_Fingerprint = ''fp:/a'',
                    file_ModTimestamp = \<lparr>sec = 100, nsec = 0\<rparr>\<rparr>,
                  \<lparr>file_Id = 2, file_Path = ''/a/b/c'', file_Fingerprint = ''fp:/a/b/c'',
                    file_ModTimestamp = \<lparr>sec = 200, nsec = 5\<rparr>\<rparr>],
     db_tags := [\<lparr>tag_Id = 1, tag_Name = ''x''\<rparr>],
     db_fileTags := [\<lparr>filetag_Id = 1, filetag_FileId = 1, filetag_TagId = 1\<rparr>,
                     \<lparr>filetag_Id = 2, filetag_FileId = 2, filetag_TagId = 1\<rparr>]\<rparr>"

text \<open>A store that knows only \<^verbatim>\<open>/a/b/c\<close>, tagged \<^verbatim>\<open>x\<close>.\<close>

definition db_c :: Database where
  "db_c = db_empty\<lparr>
     db_files := [\<lparr>file_Id = 1, file_Path = ''/a/b/c'', file_Fingerprint = ''fp:/a/b/c'',
                    file_ModTimestamp = \<lparr>sec = 200, nsec = 0\<rparr>\<rparr>],
     db_tags := [\<lparr>tag_Id = 1, tag_Name = ''x''\<rparr>],
     db_fileTags := [\<lparr>filetag_Id = 1, filetag_FileId = 1, filetag_TagId = 1\<rparr>]\<rparr>"

text \<open>The same store after \<^verbatim>\<open>/a/b/c\<close> was tagged \<^verbatim>\<open>y\<close> as well.\<close>

definition db_c_y :: Database where
  "db_c_y = db_c\<lparr>db_tags := [\<lparr>tag_Id = 1, tag_Name = ''x''\<rparr>, \<lparr>tag_Id = 2, tag_Name = ''y''\<rparr>],
     db_fileTags := [\<lparr>filetag_Id = 1, filetag_FileId = 1, filetag_TagId = 1\<rparr>,
                     \<lparr>filetag_Id = 2, filetag_FileId = 1, filetag_TagId = 2\<rparr>]\<rparr>"

text \<open>
  A store for the status and dupes examples: \<^verbatim>\<open>/f\<close> recorded with an older timestamp,
  \<^verbatim>\<open>/gone\<close> and \<^verbatim>\<open>/locked\<close> recorded, \<^verbatim>\<open>/copy\<close> recorded with the fingerprint of \<^verbatim>\<open>/f\<close>.
\<close>

definition db_mixed :: Database where
  "db_mixed = db_empty\<lparr>
     db_files := [\<lparr>file_Id = 1, file_Path = ''/f'', file_Fingerprint = ''fp:/f'',
                    file_ModTimestamp = \<lparr>sec = 150, nsec = 0\<rparr>\<rparr>,
                  \<lparr>file_Id = 2, file_Path = ''/gone'', file_Fingerprint = ''fp:/gone'',
                    file_ModTimestamp = \<lparr>sec = 150, nsec = 0\<rparr>\<rparr>,
                  \<lparr>file_Id = 3, file_Path = ''/locked'', file_Fingerprint = [],
                    file_ModTimestamp = \<lparr>sec = 150, nsec = 0\<rparr>\<rparr>,
                  \<lparr>file_Id = 4, file_Path = ''/copy'', file_Fingerprint = ''fp:/f'',
                    file_ModTimestamp = \<lparr>sec = 150, nsec = 0\<rparr>\<rparr>,
                  \<lparr>file_Id = 5, file_Path = ''/blank'', file_Fingerprint = [],
                    file_ModTimestamp = \<lparr>sec = 150, nsec = 0\<rparr>\<rparr>]\<rparr>"

text \<open>
  A second filesystem: the directory \<^verbatim>\<open>/d\<close> lists the files \<^verbatim>\<open>u\<close> and \<^verbatim>\<open>t\<close>, in this order; the
  directory \<^verbatim>\<open>/e\<close> lists \<^verbatim>\<open>x\<close>, which cannot be stat'ed for lack of permission, and then the
  file \<^verbatim>\<open>y\<close>. The store \<open>db_dirs\<close> has records for \<^verbatim>\<open>/d/t\<close>, \<^verbatim>\<open>/e/x\<close> and \<^verbatim>\<open>/e/y\<close>.
\<close>

definition env_dirs :: env where
  "env_dirs = \<lparr>
     os_Stat = (\<lambda>p. if p = ''/d'' \<or> p = ''/e''
                      then Inr \<lparr>info_IsDir = True, info_ModTime = \<lparr>sec = 100, nsec = 0\<rparr>\<rparr>
                      else if p = ''/d/u'' \<or> p = ''/d/t'' \<or> p = ''/e/y''
                      then Inr \<lparr>info_IsDir = False, info_ModTime = \<lparr>sec = 300, nsec = 0\<rparr>\<rparr>
                      else if p = ''/e/x'' then Inl ErrPermission
                      else Inl ErrNotExist),
     filepath_Abs = Inr,
     filepath_Dir = (\<lambda>p. if p = ''/d/u'' \<or> p = ''/d/t'' then ''/d''
                          else if p = ''/e/x'' \<or> p = ''/e/y'' then ''/e'' else ''/''),
     filepath_Join = (\<lambda>d n. d @ ''/'' @ n),
     os_Open = (\<lambda>p. if p = ''/d'' \<or> p = ''/e'' then None else Some ErrNotExist),
     dir_Readdir = (\<lambda>p. if p = ''/d'' then [''u'', ''t''] else if p = ''/e'' then [''x'', ''y''] else []),
     dir_Readdirnames = (\<lambda>p. if p = ''/d'' then [''u'', ''t''] else if p = ''/e'' then [''x'', ''y''] else []),
     fingerprint_Create = (\<lambda>p. Inr (''fp:'' @ p)),
     fingerprint_CreateWith = (\<lambda>p fileAlg dirAlg. Inr (''fp:'' @ p)),
     common_MakeRelative = (\<lambda>p. p),
     filesystem_Enumerate = Inr\<rparr>"

definition db_dirs :: Database where
  "db_dirs = db_empty\<lparr>
     db_files := [\<lparr>file_Id = 1, file_Path = ''/d/t'', file_Fingerprint = ''fp:/d/t'',
                    file_ModTimestamp = \<lparr>sec = 300, nsec = 0\<rparr>\<rparr>,
                  \<lparr>file_Id = 2, file_Path = ''/e/x'', file_Fingerprint = ''fp:/e/x'',
                    file_ModTimestamp = \<lparr>sec = 300, nsec = 0\<rparr>\<rparr>,
                  \<lparr>file_Id = 3, file_Path = ''/e/y'', file_Fingerprint = ''fp:/e/y'',
                    file_ModTimestamp = \<lparr>sec = 300, nsec = 0\<rparr>\<rparr>]\<rparr>"

section \<open>Proofs\<close>

subsection \<open>Helper lemmas\<close>













lemma validateFileAdd_conflict:
  assumes "os_Stat e path = Inr info" "\<not> db_fails db OpFilesByDirectory" "\<not> db_fails db OpFileByPath"
  shows "(hierarchyConflict e db path info \<longrightarrow> (\<exists>msg. validateFileAdd e db path = Some (ErrNew msg)))
       \<and> (\<not> hierarchyConflict e db path info \<longrightarrow> validateFileAdd e db path = None)"
  using assms
  by (auto simp: validateFileAdd_def hierarchyConflict_def FilesByDirectory_def FileByPath_def
      filter_empty_conv find_None_iff split: option.splits)

lemmas store_defs = database_Open_def FileByPath_def FilesByDirectory_def beneath_def
  FilesByFingerprint_def
  AddFile_def UpdateFile_def TagByName_def AddTag_def FileTagByFileIdAndTagId_def AddFileTag_def
  next_id_def Let_def

lemmas example_defs = env_tree_def db_empty_def db_a_c_def db_c_def db_mixed_def db_c_y_def
  env_dirs_def db_dirs_def

lemmas status_defs = getTaggedPathStatus_def getUntaggedPathStatus_def common_IsDir_def isDir_def
  os_IsNotExist_def os_IsPermission_def addToReport_def statusPath_def status_def Unix_def

lemmas dupes_defs = findDuplicatesOf_def store_Settings_def os_IsNotExist_def os_IsPermission_def
  stat_warning_def stat_unavailable_def

lemmas tag_defs = tagPath_def addFile_def validateFileAdd_def applyTag_def duplicate_warnings_def
  Unix_def

lemma FileByPath_Some_path: "FileByPath db path = Inr (Some entry) \<Longrightarrow> file_Path entry = path"
  by (auto simp: FileByPath_def find_Some_iff split: if_splits)

lemma scanEntries_mono:
  assumes "\<And>q r. classify q = Some r \<Longrightarrow> classify' q = Some r"
    and "scanEntries classify e path entries = Some r"
  shows "scanEntries classify' e path entries = Some r"
  using assms(2)
proof (induction entries)
  case Nil
  then show ?case by simp
next
  case (Cons x xs)
  then obtain r0 where c: "classify (filepath_Join e path x) = Some r0"
    by (auto split: option.splits)
  then have c': "classify' (filepath_Join e path x) = Some r0" by (rule assms(1))
  from Cons c c' show ?case by (auto split: sum.splits if_splits)
qed

lemma getStatus_Suc: "getStatus m e db path = Some r \<Longrightarrow> getStatus (Suc m) e db path = Some r"
proof (induction m arbitrary: path r)
  case 0
  then show ?case by simp
next
  case (Suc m)
  have step: "\<And>q r. getStatus m e db q = Some r \<Longrightarrow> getStatus (Suc m) e db q = Some r"
    by (rule Suc.IH)
  show ?case
  proof (cases "FileByPath db path")
    case (Inl err)
    with Suc.prems show ?thesis by simp
  next
    case (Inr found)
    show ?thesis
    proof (cases found)
      case (Some entry)
      with Inr Suc.prems show ?thesis by simp
    next
      case None
      with Inr Suc.prems have u: "getUntaggedPathStatus (getStatus m e db) e path = Some r" by simp
      have "getUntaggedPathStatus (getStatus (Suc m) e db) e path = Some r"
      proof (cases "common_IsDir e path \<and> os_Open e path = None")
        case True
        with u have "scanEntries (getStatus m e db) e path (dir_Readdir e path) = Some r"
          by (simp add: getUntaggedPathStatus_def)
        from scanEntries_mono [of "getStatus m e db" "getStatus (Suc m) e db", OF step this]
        show ?thesis using True by (simp add: getUntaggedPathStatus_def)
      next
        case False
        with u show ?thesis by (auto simp: getUntaggedPathStatus_def split: option.splits)
      qed
      with Inr None show ?thesis by simp
    qed
  qed
qed

lemma getStatus_add: "getStatus m e db path = Some r \<Longrightarrow> getStatus (m + k) e db path = Some r"
  by (induction k) (auto dest: getStatus_Suc)

lemma getStatus_agree:
  assumes "getStatus m e db path = Some r" and "getStatus k e db path = Some r'"
  shows "r = r'"
proof -
  from getStatus_add [OF assms(1), of k] getStatus_add [OF assms(2), of m]
  show ?thesis by (simp add: add.commute)
qed

text \<open>What a scan that returned a status says about the entries.\<close>

lemma scanEntries_status:
  assumes "scanEntries classify e path entries = Some (Inr s)"
  shows "(s = NESTED \<and> (\<exists>x\<in>set entries. \<exists>st. classify (filepath_Join e path x) = Some (Inr st)
                          \<and> (st = TAGGED \<or> st = MODIFIED \<or> st = NESTED)))
       \<or> (s = UNTAGGED \<and> (\<forall>x\<in>set entries. \<exists>st. classify (filepath_Join e path x) = Some (Inr st)
                          \<and> st \<noteq> TAGGED \<and> st \<noteq> MODIFIED \<and> st \<noteq> NESTED))"
  using assms
proof (induction entries)
  case Nil
  then show ?case by simp
next
  case (Cons x xs)
  then show ?case by (auto split: option.splits sum.splits if_splits)
qed

lemma scanEntries_returns:
  assumes "\<forall>x\<in>set entries. classify (filepath_Join e path x) \<noteq> None"
  shows "scanEntries classify e path entries \<noteq> None"
  using assms by (induction entries) (auto split: option.splits sum.splits)

lemma getStatus_untagged_dir:
  assumes "FileByPath db path = Inr None" and "common_IsDir e path" and "os_Open e path = None"
  shows "getStatus (Suc n) e db path = scanEntries (getStatus n e db) e path (dir_Readdir e path)"
  using assms by (simp add: getUntaggedPathStatus_def)

lemma getStatus_within_depth:
  "within_depth n e path \<Longrightarrow> getStatus (Suc n) e db path \<noteq> None"
proof (induction n arbitrary: path)
  case 0
  then show ?case
    by (auto simp: getUntaggedPathStatus_def split: sum.splits option.splits)
next
  case (Suc n)
  show ?case
  proof (cases "FileByPath db path = Inr None \<and> common_IsDir e path \<and> os_Open e path = None")
    case True
    with Suc.prems have "\<forall>x\<in>set (dir_Readdir e path). within_depth n e (filepath_Join e path x)"
      by simp
    then have "\<forall>x\<in>set (dir_Readdir e path). getStatus (Suc n) e db (filepath_Join e path x) \<noteq> None"
      using Suc.IH by blast
    from scanEntries_returns [OF this]
    have "scanEntries (getStatus (Suc n) e db) e path (dir_Readdir e path) \<noteq> None" .
    moreover from True
    have "getStatus (Suc (Suc n)) e db path
            = scanEntries (getStatus (Suc n) e db) e path (dir_Readdir e path)"
      by (intro getStatus_untagged_dir) simp_all
    ultimately show ?thesis by simp
  next
    case False
    then show ?thesis
      by (auto simp: getUntaggedPathStatus_def split: sum.splits option.splits)
  qed
qed

text \<open>Every status that classification of a directory with a marked entry can return is marked.\<close>

lemma marked_up:
  assumes below: "\<forall>m r. getStatus m e db (filepath_Join e q x) = Some (Inr r) \<longrightarrow> marked r"
    and dir: "common_IsDir e q" and x: "x \<in> set (dir_Readdir e q)"
    and q: "getStatus m e db q = Some (Inr r)"
  shows "marked r"
proof -
  from q obtain n where m: "m = Suc n" by (cases m) auto
  show ?thesis
  proof (cases "FileByPath db q")
    case (Inl err)
    with q m show ?thesis by simp
  next
    case (Inr found)
    show ?thesis
    proof (cases found)
      case (Some entry)
      from Inr Some have p: "file_Path entry = q" by (simp add: FileByPath_Some_path)
      from dir obtain info where "os_Stat e q = Inr info"
        by (auto simp: common_IsDir_def isDir_def split: sum.splits)
      with q m Inr Some p show ?thesis
        by (auto simp: getTaggedPathStatus_def marked_def split: if_splits)
    next
      case None
      with q m Inr dir have "scanEntries (getStatus n e db) e q (dir_Readdir e q) = Some (Inr r)"
        by (auto simp: getUntaggedPathStatus_def split: option.splits)
      from scanEntries_status [OF this] show ?thesis
      proof
        assume "r = NESTED \<and> (\<exists>x\<in>set (dir_Readdir e q). \<exists>st.
                   getStatus n e db (filepath_Join e q x) = Some (Inr st)
                   \<and> (st = TAGGED \<or> st = MODIFIED \<or> st = NESTED))"
        then show ?thesis by (simp add: marked_def)
      next
        assume "r = UNTAGGED \<and> (\<forall>x\<in>set (dir_Readdir e q). \<exists>st.
                   getStatus n e db (filepath_Join e q x) = Some (Inr st)
                   \<and> st \<noteq> TAGGED \<and> st \<noteq> MODIFIED \<and> st \<noteq> NESTED)"
        with x obtain st where "getStatus n e db (filepath_Join e q x) = Some (Inr st)"
          and "\<not> marked st" by (auto simp: marked_def)
        with below show ?thesis by blast
      qed
    qed
  qed
qed

lemma descendants_mark:
  "d \<in> set (descendants n e p) \<Longrightarrow> \<forall>m r. getStatus m e db d = Some (Inr r) \<longrightarrow> marked r
     \<Longrightarrow> \<forall>m s. getStatus m e db p = Some (Inr s) \<longrightarrow> marked s"
proof (induction n arbitrary: p)
  case 0
  then show ?case by simp
next
  case (Suc n)
  from Suc.prems(1) have dir: "common_IsDir e p"
    by (auto split: if_splits)
  with Suc.prems(1) obtain x where x: "x \<in> set (dir_Readdir e p)"
    and d: "d = filepath_Join e p x \<or> d \<in> set (descendants n e (filepath_Join e p x))"
    by auto
  have "\<forall>m r. getStatus m e db (filepath_Join e p x) = Some (Inr r) \<longrightarrow> marked r"
    using d Suc.IH [of "filepath_Join e p x"] Suc.prems(2) by blast
  then show ?case using marked_up [OF _ dir x] by blast
qed

lemma scanEntries_all_status:
  assumes "\<forall>x\<in>set entries. \<exists>st. classify (filepath_Join e path x) = Some (Inr st)"
  shows "\<exists>s. scanEntries classify e path entries = Some (Inr s)"
  using assms by (induction entries) auto

lemma getTaggedPathStatus_status:
  "stat_ok e (file_Path entry) \<Longrightarrow> \<exists>s. getTaggedPathStatus e entry = Inr s"
  by (auto simp: stat_ok_def getTaggedPathStatus_def os_IsNotExist_def split: sum.splits)

lemma no_failure_entry:
  assumes "no_failure (Suc n) e db p" and "common_IsDir e p" and "x \<in> set (dir_Readdir e p)"
  shows "no_failure n e db (filepath_Join e p x)"
  using assms by (auto simp: no_failure_def)

lemma getStatus_status:
  "within_depth n e p \<Longrightarrow> no_failure n e db p \<Longrightarrow> \<exists>s. getStatus (Suc n) e db p = Some (Inr s)"
proof (induction n arbitrary: p)
  case 0
  then have nf: "\<not> db_fails db OpFileByPath" and ok: "stat_ok e p"
    and op: "common_IsDir e p \<longrightarrow> os_Open e p = None"
    by (auto simp: no_failure_def)
  show ?case
  proof (cases "find (\<lambda>f. file_Path f = p) (db_files db)")
    case (Some entry)
    then have "file_Path entry = p" by (auto simp: find_Some_iff)
    with ok obtain s where "getTaggedPathStatus e entry = Inr s"
      using getTaggedPathStatus_status by blast
    with Some nf show ?thesis by (simp add: FileByPath_def)
  next
    case None
    with nf op "0.prems"(1) show ?thesis
      by (auto simp: FileByPath_def getUntaggedPathStatus_def)
  qed
next
  case (Suc n)
  then have nf: "\<not> db_fails db OpFileByPath" and ok: "stat_ok e p"
    and op: "common_IsDir e p \<longrightarrow> os_Open e p = None"
    by (auto simp: no_failure_def)
  show ?case
  proof (cases "find (\<lambda>f. file_Path f = p) (db_files db)")
    case (Some entry)
    then have "file_Path entry = p" by (auto simp: find_Some_iff)
    with ok obtain s where "getTaggedPathStatus e entry = Inr s"
      using getTaggedPathStatus_status by blast
    with Some nf show ?thesis by (simp add: FileByPath_def)
  next
    case None
    then have fb: "FileByPath db p = Inr None" using nf by (simp add: FileByPath_def)
    show ?thesis
    proof (cases "common_IsDir e p")
      case False
      with fb show ?thesis by (simp add: getUntaggedPathStatus_def)
    next
      case True
      have "\<forall>x\<in>set (dir_Readdir e p). \<exists>st. getStatus (Suc n) e db (filepath_Join e p x) = Some (Inr st)"
      proof
        fix x assume x: "x \<in> set (dir_Readdir e p)"
        from Suc.prems(1) True x have "within_depth n e (filepath_Join e p x)" by simp
        moreover from no_failure_entry [OF Suc.prems(2) True x]
        have "no_failure n e db (filepath_Join e p x)" .
        ultimately show "\<exists>st. getStatus (Suc n) e db (filepath_Join e p x) = Some (Inr st)"
          by (rule Suc.IH)
      qed
      from scanEntries_all_status [OF this]
      obtain s where "scanEntries (getStatus (Suc n) e db) e p (dir_Readdir e p) = Some (Inr s)"
        by blast
      moreover from fb True op
      have "getStatus (Suc (Suc n)) e db p
              = scanEntries (getStatus (Suc n) e db) e p (dir_Readdir e p)"
        by (intro getStatus_untagged_dir) simp_all
      ultimately show ?thesis by simp
    qed
  qed
qed

lemma statPaths_warnings:
  assumes "\<forall>p\<in>set paths. stat_unavailable e p \<or> (\<exists>info. os_Stat e p = Inr info)"
  shows "statPaths e wereErrors paths =
           (concat (map (stat_warning e) paths),
            Inr (wereErrors \<or> (\<exists>p\<in>set paths. stat_unavailable e p)))"
  using assms
proof (induction paths arbitrary: wereErrors)
  case Nil
  then show ?case by simp
next
  case (Cons p ps)
  then have rest: "\<And>w. statPaths e w ps =
           (concat (map (stat_warning e) ps), Inr (w \<or> (\<exists>p\<in>set ps. stat_unavailable e p)))"
    by simp
  from Cons.prems consider (gone) "os_Stat e p = Inl ErrNotExist"
    | (denied) "os_Stat e p = Inl ErrPermission" | (ok) info where "os_Stat e p = Inr info"
    by (auto simp: stat_unavailable_def)
  then show ?case
  proof cases
    case gone
    then have "stat_warning e p = [Warn (p @ '': no such file'')]" "stat_unavailable e p"
      by (simp_all add: stat_warning_def stat_unavailable_def)
    with gone show ?thesis by (simp add: rest os_IsNotExist_def)
  next
    case denied
    then have "stat_warning e p = [Warn (p @ '': permission denied'')]" "stat_unavailable e p"
      by (simp_all add: stat_warning_def stat_unavailable_def)
    with denied show ?thesis by (simp add: rest os_IsNotExist_def os_IsPermission_def)
  next
    case ok
    then have "stat_warning e p = []" "\<not> stat_unavailable e p"
      by (simp_all add: stat_warning_def stat_unavailable_def)
    with ok show ?thesis by (simp add: rest)
  qed
qed

lemma probePaths_skip:
  assumes "empty_fingerprint e settings path"
  shows "probePaths e db settings len first (path # paths) =
           (Info (path @ '': identifying duplicate files.'')
              # fst (probePaths e db settings len first paths),
            snd (probePaths e db settings len first paths))"
  using assms by (simp add: empty_fingerprint_def split: prod.splits)

lemma probePaths_filter:
  "filter is_Println (fst (probePaths e db settings len first paths)) =
     filter is_Println (fst (probePaths e db settings len first
        (filter (\<lambda>p. \<not> empty_fingerprint e settings p) paths)))
   \<and> snd (probePaths e db settings len first paths) =
     snd (probePaths e db settings len first
        (filter (\<lambda>p. \<not> empty_fingerprint e settings p) paths))"
proof (induction paths arbitrary: first)
  case Nil
  show ?case by simp
next
  case (Cons p ps)
  show ?case
  proof (cases "empty_fingerprint e settings p")
    case True
    from probePaths_skip [OF True] Cons.IH [of first] True show ?thesis
      by (simp add: is_Println_def)
  next
    case False
    then show ?thesis
      using Cons.IH [of first] Cons.IH [of False]
      by (auto simp: empty_fingerprint_def Let_def is_Println_def split: sum.splits prod.splits)
  qed
qed

lemma DuplicateFiles_nonempty_fingerprint:
  assumes "DuplicateFiles db = Inr fileSets" and "fileSet \<in> set fileSets" and "f \<in> set fileSet"
  shows "file_Fingerprint f \<noteq> []"
  using assms by (auto simp: DuplicateFiles_def split: if_splits)


lemma printFileSets_lines:
  "ev \<in> set (printFileSets e i fileSets) \<Longrightarrow>
     ev = Println []
     \<or> (\<exists>fileSet\<in>set fileSets. ev = Println (''Set of '' @ show_nat (length fileSet) @ '' duplicates:''))
     \<or> (\<exists>fileSet\<in>set fileSets. \<exists>f\<in>set fileSet.
           ev = Println (''  '' @ common_MakeRelative e (file_Path f)))"
  by (induction fileSets arbitrary: i) (auto split: if_splits)

lemma DuplicateFiles_stored:
  assumes "DuplicateFiles db = Inr fileSets" and "fileSet \<in> set fileSets" and "f \<in> set fileSet"
  shows "f \<in> set (db_files db)"
  using assms by (auto simp: DuplicateFiles_def split: if_splits)

lemma findDuplicatesInDb_lines:
  assumes "ev \<in> set (fst (findDuplicatesInDb e db))"
  shows "(\<exists>msg. ev = Info msg) \<or> ev = Println []
     \<or> (\<exists>n. ev = Println (''Set of '' @ show_nat n @ '' duplicates:''))
     \<or> (\<exists>f\<in>set (db_files db). file_Fingerprint f \<noteq> []
           \<and> ev = Println (''  '' @ common_MakeRelative e (file_Path f)))"
proof (cases "DuplicateFiles db")
  case (Inl err)
  with assms show ?thesis by (simp add: findDuplicatesInDb_def)
next
  case (Inr fileSets)
  with assms have "(\<exists>msg. ev = Info msg) \<or> ev \<in> set (printFileSets e 0 fileSets)"
    by (auto simp: findDuplicatesInDb_def)
  then show ?thesis
  proof
    assume "\<exists>msg. ev = Info msg" then show ?thesis by blast
  next
    assume "ev \<in> set (printFileSets e 0 fileSets)"
    from printFileSets_lines [OF this]
    show ?thesis
      using DuplicateFiles_stored [OF Inr] DuplicateFiles_nonempty_fingerprint [OF Inr]
      by blast
  qed
qed

subsection \<open>The tag command\<close>

text \<open>
  Claim C10. Tag-name validation is not total: on the empty tag name applyTag passes the
  three strings.Index checks and then reads \<^verbatim>\<open>tagName[0]\<close>, which is out of range. It
  neither returns a validation error nor completes normally: it panics, with the store
  untouched.
\<close>

theorem applyTag_empty_name_panics:
  "applyTag db path fileId [] = (Inl (RuntimePanic ''index out of range''), db, [])
   \<and> (\<forall>msg. fst (applyTag db path fileId []) \<noteq> Inl (ErrNew msg))
   \<and> (\<forall>res. fst (applyTag db path fileId []) \<noteq> Inr res)"
  by (simp add: applyTag_def)







text \<open>
  Claim C3 as stated fails: addFile calls validateFileAdd before it branches on whether
  the path has a record. After \<^verbatim>\<open>/a\<close> and then \<^verbatim>\<open>/a/b/c\<close> were tagged (the validator passes
  both), \<^verbatim>\<open>/a\<close> has a File record, and tagging it again fails in the validator.
\<close>

theorem retag_existing_counterexample:
  "tagPaths env_tree db_empty [''/a'', ''/a/b/c''] [''x''] =
     (None, db_a_c, [Warn (''New tag '' @ [CHR 0x27] @ ''x'' @ [CHR 0x27] @ ''.'')])
   \<and> FileByPath db_a_c ''/a'' =
        Inr (Some \<lparr>file_Id = 1, file_Path = ''/a'', file_Fingerprint = ''fp:/a'',
                    file_ModTimestamp = \<lparr>sec = 100, nsec = 0\<rparr>\<rparr>)
   \<and> tagPath env_tree db_a_c ''/a'' [''x''] =
        (Some (ErrNew (''Cannot tag directory '' @ [CHR 0x27] @ ''/a'' @ [CHR 0x27] @ '' as it contains tagged items.'')), db_a_c, [])"
  by (simp add: example_defs tag_defs store_defs)

text \<open>
  Claim C3, amended. Hierarchy validation is performed for every path, also for one that
  already has a File record: re-tagging such a path fails with the validator's error,
  the store unchanged, exactly when the validator finds a conflict (a stored file beneath
  a directory; a record of the immediate parent of anything else), and otherwise gets
  past validation and returns the stored record.
\<close>

theorem addFile_validates_existing:
  assumes "fingerprint_Create e path = Inr fp" and "FileByPath db path = Inr (Some f)"
    and "os_Stat e path = Inr info" and "\<not> db_fails db OpFilesByDirectory"
  shows "(hierarchyConflict e db path info \<longrightarrow> (\<exists>msg. addFile e db path = (Inl (ErrNew msg), db, [])))
       \<and> (\<not> hierarchyConflict e db path info \<longrightarrow> fst (addFile e db path) = Inr f)"
proof -
  have nf: "\<not> db_fails db OpFileByPath" using assms(2) by (auto simp: FileByPath_def split: if_splits)
  note v = validateFileAdd_conflict [OF assms(3,4) nf]
  show ?thesis
  proof (intro conjI impI)
    assume "hierarchyConflict e db path info"
    with v obtain msg where "validateFileAdd e db path = Some (ErrNew msg)" by blast
    then show "\<exists>msg. addFile e db path = (Inl (ErrNew msg), db, [])"
      using assms(1,2) by (simp add: addFile_def)
  next
    assume "\<not> hierarchyConflict e db path info"
    with v have "validateFileAdd e db path = None" by blast
    then show "fst (addFile e db path) = Inr f"
      using assms(1,2,3) by (simp add: addFile_def Let_def)
  qed
qed

theorem addFile_validates_existing_witness:
  "hierarchyConflict env_tree db_a_c ''/a'' \<lparr>info_IsDir = True, info_ModTime = \<lparr>sec = 100, nsec = 0\<rparr>\<rparr>
   \<and> (\<exists>msg. addFile env_tree db_a_c ''/a'' = (Inl (ErrNew msg), db_a_c, []))
   \<and> \<not> hierarchyConflict env_tree db_a_c ''/a/b/c'' \<lparr>info_IsDir = False, info_ModTime = \<lparr>sec = 200, nsec = 5\<rparr>\<rparr>
   \<and> fst (addFile env_tree db_a_c ''/a/b/c'') =
        Inr \<lparr>file_Id = 2, file_Path = ''/a/b/c'', file_Fingerprint = ''fp:/a/b/c'',
              file_ModTimestamp = \<lparr>sec = 200, nsec = 5\<rparr>\<rparr>"
proof -
  have 1: "fingerprint_Create env_tree ''/a'' = Inr ''fp:/a''"
    "FileByPath db_a_c ''/a'' = Inr (Some \<lparr>file_Id = 1, file_Path = ''/a'', file_Fingerprint = ''fp:/a'',
                    file_ModTimestamp = \<lparr>sec = 100, nsec = 0\<rparr>\<rparr>)"
    "os_Stat env_tree ''/a'' = Inr \<lparr>info_IsDir = True, info_ModTime = \<lparr>sec = 100, nsec = 0\<rparr>\<rparr>"
    "\<not> db_fails db_a_c OpFilesByDirectory"
    by (simp_all add: example_defs store_defs)
  have 2: "fingerprint_Create env_tree ''/a/b/c'' = Inr ''fp:/a/b/c''"
    "FileByPath db_a_c ''/a/b/c'' = Inr (Some \<lparr>file_Id = 2, file_Path = ''/a/b/c'', file_Fingerprint = ''fp:/a/b/c'',
              file_ModTimestamp = \<lparr>sec = 200, nsec = 5\<rparr>\<rparr>)"
    "os_Stat env_tree ''/a/b/c'' = Inr \<lparr>info_IsDir = False, info_ModTime = \<lparr>sec = 200, nsec = 5\<rparr>\<rparr>"
    by (simp_all add: example_defs store_defs)
  have c1: "hierarchyConflict env_tree db_a_c ''/a'' \<lparr>info_IsDir = True, info_ModTime = \<lparr>sec = 100, nsec = 0\<rparr>\<rparr>"
    by (simp add: hierarchyConflict_def beneath_def example_defs)
  have c2: "\<not> hierarchyConflict env_tree db_a_c ''/a/b/c'' \<lparr>info_IsDir = False, info_ModTime = \<lparr>sec = 200, nsec = 5\<rparr>\<rparr>"
    by (simp add: hierarchyConflict_def beneath_def example_defs)
  show ?thesis
    using c1 c2 addFile_validates_existing [OF 1] addFile_validates_existing [OF 2 1(4)]
    by blast
qed

text \<open>
  Claim C4 as stated fails: for a file the validator looks at the immediate parent only.
  From the empty store, tagging the directory \<^verbatim>\<open>/a\<close> and then the file \<^verbatim>\<open>/a/b/c\<close> succeeds,
  and the store holds File records for a path and for a strict ancestor of it.
\<close>

theorem nesting_counterexample:
  "tagPaths env_tree db_empty [''/a'', ''/a/b/c''] [''x''] =
     (None, db_a_c, [Warn (''New tag '' @ [CHR 0x27] @ ''x'' @ [CHR 0x27] @ ''.'')])
   \<and> map file_Path (db_files db_a_c) = [''/a'', ''/a/b/c'']
   \<and> strict_ancestor ''/a'' ''/a/b/c''"
  by (simp add: example_defs tag_defs store_defs strict_ancestor_def)

text \<open>
  Claim C4, amended. The validator refuses a directory exactly when the store holds a File
  record strictly beneath it, and anything else exactly when the store holds a File record
  for its immediate parent directory; every attempt to tag such a path fails in the
  validator before any store mutation. Farther ancestors of a file, and the ancestors of a
  directory, are not looked at.
\<close>

theorem validator_gates_tagPath:
  assumes "database_Open db = None" and "filepath_Abs e path = Inr absPath"
    and "fingerprint_Create e absPath = Inr fp" and "os_Stat e absPath = Inr info"
    and "\<not> db_fails db OpFileByPath" and "\<not> db_fails db OpFilesByDirectory"
  shows "(validateFileAdd e db absPath \<noteq> None \<longleftrightarrow> hierarchyConflict e db absPath info)
       \<and> (hierarchyConflict e db absPath info
            \<longrightarrow> (\<exists>msg. tagPath e db path tagNames = (Some (ErrNew msg), db, [])))"
proof -
  note v = validateFileAdd_conflict [OF assms(4,6,5)]
  have a: "validateFileAdd e db absPath \<noteq> None \<longleftrightarrow> hierarchyConflict e db absPath info"
    using v by auto
  have b: "\<exists>msg. tagPath e db path tagNames = (Some (ErrNew msg), db, [])"
    if "hierarchyConflict e db absPath info"
  proof -
    from v that obtain msg where "validateFileAdd e db absPath = Some (ErrNew msg)" by blast
    then have "addFile e db absPath = (Inl (ErrNew msg), db, [])"
      using assms(3,5) by (simp add: addFile_def FileByPath_def)
    then show ?thesis using assms(1,2) by (simp add: tagPath_def)
  qed
  from a b show ?thesis by blast
qed

theorem validator_gates_tagPath_witness:
  "validateFileAdd env_tree db_c ''/a/b'' \<noteq> None
   \<and> hierarchyConflict env_tree db_c ''/a/b'' \<lparr>info_IsDir = True, info_ModTime = \<lparr>sec = 100, nsec = 0\<rparr>\<rparr>
   \<and> (\<exists>msg. tagPath env_tree db_c ''/a/b'' [''x''] = (Some (ErrNew msg), db_c, []))"
proof -
  have h: "database_Open db_c = None" "filepath_Abs env_tree ''/a/b'' = Inr ''/a/b''"
    "fingerprint_Create env_tree ''/a/b'' = Inr ''fp:/a/b''"
    "os_Stat env_tree ''/a/b'' = Inr \<lparr>info_IsDir = True, info_ModTime = \<lparr>sec = 100, nsec = 0\<rparr>\<rparr>"
    "\<not> db_fails db_c OpFileByPath" "\<not> db_fails db_c OpFilesByDirectory"
    by (simp_all add: example_defs store_defs)
  have c: "hierarchyConflict env_tree db_c ''/a/b'' \<lparr>info_IsDir = True, info_ModTime = \<lparr>sec = 100, nsec = 0\<rparr>\<rparr>"
    by (simp add: hierarchyConflict_def beneath_def example_defs)
  show ?thesis
    using c validator_gates_tagPath [OF h, of "[''x'']"] by blast
qed

subsection \<open>The status command\<close>

text \<open>
  Claim C5. For a path that has a File record, classification with any fuel returns
  MISSING when stat of the path fails with not-found, TAGGED when stat succeeds and the
  stored and the live modification time agree in their Unix seconds, MODIFIED when they
  differ, and for any other stat failure it returns that error instead of a status.
\<close>

theorem getStatus_tagged_path:
  assumes "FileByPath db path = Inr (Some entry)"
  shows "(os_Stat e path = Inl ErrNotExist \<longrightarrow> getStatus (Suc n) e db path = Some (Inr MISSING))
       \<and> (\<forall>info. os_Stat e path = Inr info \<and> Unix (file_ModTimestamp entry) = Unix (info_ModTime info)
            \<longrightarrow> getStatus (Suc n) e db path = Some (Inr TAGGED))
       \<and> (\<forall>info. os_Stat e path = Inr info \<and> Unix (file_ModTimestamp entry) \<noteq> Unix (info_ModTime info)
            \<longrightarrow> getStatus (Suc n) e db path = Some (Inr MODIFIED))
       \<and> (\<forall>err. os_Stat e path = Inl err \<and> err \<noteq> ErrNotExist
            \<longrightarrow> getStatus (Suc n) e db path = Some (Inl err))"
  using assms FileByPath_Some_path [OF assms]
  by (simp add: getTaggedPathStatus_def os_IsNotExist_def)


theorem getStatus_tagged_path_witness:
  "getStatus 1 env_tree db_mixed ''/gone'' = Some (Inr MISSING)
   \<and> getStatus 1 env_tree db_a_c ''/a/b/c'' = Some (Inr TAGGED)
   \<and> getStatus 1 env_tree db_mixed ''/f'' = Some (Inr MODIFIED)
   \<and> getStatus 1 env_tree db_mixed ''/locked'' = Some (Inl ErrPermission)"
proof -
  have g: "FileByPath db_mixed ''/gone'' = Inr (Some \<lparr>file_Id = 2, file_Path = ''/gone'', file_Fingerprint = ''fp:/gone'',
                    file_ModTimestamp = \<lparr>sec = 150, nsec = 0\<rparr>\<rparr>)"
    and c: "FileByPath db_a_c ''/a/b/c'' = Inr (Some \<lparr>file_Id = 2, file_Path = ''/a/b/c'', file_Fingerprint = ''fp:/a/b/c'',
                    file_ModTimestamp = \<lparr>sec = 200, nsec = 5\<rparr>\<rparr>)"
    and f: "FileByPath db_mixed ''/f'' = Inr (Some \<lparr>file_Id = 1, file_Path = ''/f'', file_Fingerprint = ''fp:/f'',
                    file_ModTimestamp = \<lparr>sec = 150, nsec = 0\<rparr>\<rparr>)"
    and l: "FileByPath db_mixed ''/locked'' = Inr (Some \<lparr>file_Id = 3, file_Path = ''/locked'', file_Fingerprint = [],
                    file_ModTimestamp = \<lparr>sec = 150, nsec = 0\<rparr>\<rparr>)"
    by (simp_all add: example_defs store_defs)
  have s: "os_Stat env_tree ''/gone'' = Inl ErrNotExist"
    "os_Stat env_tree ''/a/b/c'' = Inr \<lparr>info_IsDir = False, info_ModTime = \<lparr>sec = 200, nsec = 5\<rparr>\<rparr>"
    "os_Stat env_tree ''/f'' = Inr \<lparr>info_IsDir = False, info_ModTime = \<lparr>sec = 200, nsec = 5\<rparr>\<rparr>"
    "os_Stat env_tree ''/locked'' = Inl ErrPermission"
    by (simp_all add: example_defs)
  show ?thesis
    using getStatus_tagged_path [OF g, of env_tree 0] getStatus_tagged_path [OF c, of env_tree 0]
      getStatus_tagged_path [OF f, of env_tree 0] getStatus_tagged_path [OF l, of env_tree 0] s
    by (simp add: Unix_def)
qed

text \<open>
  Claim C9. In the status command, an argument that is not a directory, and every
  argument under \<^verbatim>\<open>--directory\<close>, is added to the report only when its status is MISSING:
  with any other status (TAGGED, MODIFIED, UNTAGGED, NESTED) the report is left as it was.
\<close>

theorem status_reports_only_missing:
  assumes "filepath_Abs e path = Inr absPath" and "showDirectory \<or> \<not> isDir e absPath"
    and "getStatus n e db absPath = Some (Inr st)"
  shows "statusPath n e db showDirectory report path =
           Some (Inr (if st = MISSING
                      then report\<lparr>Missing := Missing report @ [common_MakeRelative e absPath]\<rparr>
                      else report))"
  using assms by (auto simp: statusPath_def addToReport_def)


theorem status_reports_only_missing_witness:
  "statusPath 1 env_tree db_mixed False NewReport ''/f'' = Some (Inr NewReport)
   \<and> statusPath 1 env_tree db_mixed False NewReport ''/gone'' = Some (Inr (NewReport\<lparr>Missing := [''/gone'']\<rparr>))"
proof -
  have f: "filepath_Abs env_tree ''/f'' = Inr ''/f''" "False \<or> \<not> isDir env_tree ''/f''"
    "getStatus 1 env_tree db_mixed ''/f'' = Some (Inr MODIFIED)"
    by (simp_all add: example_defs store_defs status_defs)
  have g: "filepath_Abs env_tree ''/gone'' = Inr ''/gone''" "False \<or> \<not> isDir env_tree ''/gone''"
    "getStatus 1 env_tree db_mixed ''/gone'' = Some (Inr MISSING)"
    by (simp_all add: example_defs store_defs status_defs)
  show ?thesis
    using status_reports_only_missing [OF f, of NewReport] status_reports_only_missing [OF g, of NewReport]
    by (simp add: NewReport_def env_tree_def)
qed

text \<open>
  Claim C6 as stated fails: the loop of getUntaggedPathStatus returns the error of the
  first entry whose classification fails. The directory \<^verbatim>\<open>/e\<close> has no File record and its
  entry \<^verbatim>\<open>y\<close> classifies as TAGGED, but the entry \<^verbatim>\<open>x\<close> before it cannot be stat'ed, and
  classification of \<^verbatim>\<open>/e\<close> ends in that error, not in NESTED.
\<close>

theorem getStatus_entry_error_counterexample:
  "FileByPath db_dirs ''/e'' = Inr None
   \<and> common_IsDir env_dirs ''/e''
   \<and> dir_Readdir env_dirs ''/e'' = [''x'', ''y'']
   \<and> getStatus 1 env_dirs db_dirs ''/e/y'' = Some (Inr TAGGED)
   \<and> getStatus 1 env_dirs db_dirs ''/e/x'' = Some (Inl ErrPermission)
   \<and> getStatus 2 env_dirs db_dirs ''/e'' = Some (Inl ErrPermission)"
  by (simp add: eval_nat_numeral example_defs store_defs status_defs)

text \<open>
  Claim C6, amended. For a directory without a File record, classification with fuel
  \<open>n + 1\<close> returns when the directories beneath it nest at most \<open>n\<close> levels deep. When
  moreover nothing fails (the store lookup works, no stat beneath the directory fails
  other than with not-found, every directory beneath it can be opened), it returns a
  status: NESTED if some direct entry classifies as TAGGED, MODIFIED or NESTED, and
  UNTAGGED otherwise. Whenever classification returns a status, with or without
  failures elsewhere, that status is NESTED if and only if some direct entry classifies
  as TAGGED, MODIFIED or NESTED, equivalently if and only if some entry at any depth
  beneath the directory does, and it is UNTAGGED otherwise.
\<close>

theorem getStatus_untagged_directory:
  assumes "FileByPath db path = Inr None" and "common_IsDir e path"
  shows "(within_depth n e path \<longrightarrow> (\<exists>r. getStatus (Suc n) e db path = Some r))
       \<and> (within_depth n e path \<and> no_failure n e db path \<longrightarrow>
            getStatus (Suc n) e db path =
              Some (Inr (if (\<exists>x\<in>set (dir_Readdir e path). \<exists>k st.
                               getStatus k e db (filepath_Join e path x) = Some (Inr st)
                               \<and> (st = TAGGED \<or> st = MODIFIED \<or> st = NESTED))
                         then NESTED else UNTAGGED)))
       \<and> (\<forall>m s. getStatus m e db path = Some (Inr s) \<longrightarrow>
            (s = NESTED \<longleftrightarrow>
               (\<exists>x\<in>set (dir_Readdir e path). \<exists>k st.
                   getStatus k e db (filepath_Join e path x) = Some (Inr st)
                   \<and> (st = TAGGED \<or> st = MODIFIED \<or> st = NESTED)))
          \<and> (s = NESTED \<longleftrightarrow>
               (\<exists>j. \<exists>d\<in>set (descendants j e path). \<exists>k st.
                   getStatus k e db d = Some (Inr st)
                   \<and> (st = TAGGED \<or> st = MODIFIED \<or> st = NESTED)))
          \<and> (s = NESTED \<or> s = UNTAGGED))"
proof -
  have char: "(s = NESTED \<longleftrightarrow>
               (\<exists>x\<in>set (dir_Readdir e path). \<exists>k st.
                   getStatus k e db (filepath_Join e path x) = Some (Inr st)
                   \<and> (st = TAGGED \<or> st = MODIFIED \<or> st = NESTED)))
          \<and> (s = NESTED \<longleftrightarrow>
               (\<exists>j. \<exists>d\<in>set (descendants j e path). \<exists>k st.
                   getStatus k e db d = Some (Inr st)
                   \<and> (st = TAGGED \<or> st = MODIFIED \<or> st = NESTED)))
          \<and> (s = NESTED \<or> s = UNTAGGED)"
    if g: "getStatus m e db path = Some (Inr s)" for m s
  proof -
    from g obtain n' where m: "m = Suc n'" by (cases m) auto
    from g m assms have sc: "scanEntries (getStatus n' e db) e path (dir_Readdir e path) = Some (Inr s)"
      by (auto simp: getUntaggedPathStatus_def split: option.splits)
    note st = scanEntries_status [OF sc]
    from st have nu: "s = NESTED \<or> s = UNTAGGED" by blast
    have fwd: "\<exists>x\<in>set (dir_Readdir e path). \<exists>k st.
                   getStatus k e db (filepath_Join e path x) = Some (Inr st)
                   \<and> (st = TAGGED \<or> st = MODIFIED \<or> st = NESTED)" if "s = NESTED"
      using st that by auto
    have down: "\<exists>j. \<exists>d\<in>set (descendants j e path). \<exists>k st.
                   getStatus k e db d = Some (Inr st)
                   \<and> (st = TAGGED \<or> st = MODIFIED \<or> st = NESTED)"
      if "\<exists>x\<in>set (dir_Readdir e path). \<exists>k st.
                   getStatus k e db (filepath_Join e path x) = Some (Inr st)
                   \<and> (st = TAGGED \<or> st = MODIFIED \<or> st = NESTED)"
    proof -
      from that obtain x k st where x: "x \<in> set (dir_Readdir e path)"
        and k: "getStatus k e db (filepath_Join e path x) = Some (Inr st)"
        and t: "st = TAGGED \<or> st = MODIFIED \<or> st = NESTED" by blast
      from x assms(2) have "filepath_Join e path x \<in> set (descendants (Suc 0) e path)" by simp
      with k t show ?thesis by blast
    qed
    have bwd: "s = NESTED"
      if "\<exists>j. \<exists>d\<in>set (descendants j e path). \<exists>k st.
                   getStatus k e db d = Some (Inr st)
                   \<and> (st = TAGGED \<or> st = MODIFIED \<or> st = NESTED)"
    proof -
      from that obtain j d k st where d: "d \<in> set (descendants j e path)"
        and k: "getStatus k e db d = Some (Inr st)" and t: "marked st"
        by (auto simp: marked_def)
      have "\<forall>m r. getStatus m e db d = Some (Inr r) \<longrightarrow> marked r"
        using getStatus_agree [OF k] t by blast
      from descendants_mark [OF d this] g have "marked s" by blast
      with nu show ?thesis by (auto simp: marked_def)
    qed
    from fwd down bwd nu show ?thesis by blast
  qed
  have returns: "\<exists>r. getStatus (Suc n) e db path = Some r" if "within_depth n e path"
    using getStatus_within_depth [OF that, of db] by auto
  have status: "getStatus (Suc n) e db path =
              Some (Inr (if (\<exists>x\<in>set (dir_Readdir e path). \<exists>k st.
                               getStatus k e db (filepath_Join e path x) = Some (Inr st)
                               \<and> (st = TAGGED \<or> st = MODIFIED \<or> st = NESTED))
                         then NESTED else UNTAGGED))"
    if "within_depth n e path \<and> no_failure n e db path"
  proof -
    from that getStatus_status [of n e path db]
    obtain s where s: "getStatus (Suc n) e db path = Some (Inr s)" by blast
    from char [OF s] have "s = (if (\<exists>x\<in>set (dir_Readdir e path). \<exists>k st.
                               getStatus k e db (filepath_Join e path x) = Some (Inr st)
                               \<and> (st = TAGGED \<or> st = MODIFIED \<or> st = NESTED))
                         then NESTED else UNTAGGED)"
      by auto
    with s show ?thesis by simp
  qed
  from char returns status show ?thesis by blast
qed

theorem getStatus_untagged_directory_witness:
  "within_depth 1 env_dirs ''/d''
   \<and> no_failure 1 env_dirs db_dirs ''/d''
   \<and> dir_Readdir env_dirs ''/d'' = [''u'', ''t'']
   \<and> getStatus 1 env_dirs db_dirs ''/d/u'' = Some (Inr UNTAGGED)
   \<and> getStatus 1 env_dirs db_dirs ''/d/t'' = Some (Inr TAGGED)
   \<and> getStatus 2 env_dirs db_dirs ''/d'' = Some (Inr NESTED)
   \<and> within_depth 2 env_tree ''/a''
   \<and> no_failure 2 env_tree db_empty ''/a''
   \<and> descendants 2 env_tree ''/a'' = [''/a/b'', ''/a/b/c'']
   \<and> getStatus 3 env_tree db_c ''/a'' = Some (Inr NESTED)
   \<and> (\<exists>j. \<exists>d\<in>set (descendants j env_tree ''/a''). \<exists>k st.
           getStatus k env_tree db_c d = Some (Inr st)
           \<and> (st = TAGGED \<or> st = MODIFIED \<or> st = NESTED))
   \<and> getStatus 3 env_tree db_empty ''/a'' = Some (Inr UNTAGGED)
   \<and> \<not> (\<exists>j. \<exists>d\<in>set (descendants j env_tree ''/a''). \<exists>k st.
           getStatus k env_tree db_empty d = Some (Inr st)
           \<and> (st = TAGGED \<or> st = MODIFIED \<or> st = NESTED))"
proof -
  have hd: "FileByPath db_dirs ''/d'' = Inr None" "common_IsDir env_dirs ''/d''"
    by (simp_all add: example_defs store_defs status_defs)
  have wd: "within_depth 1 env_dirs ''/d''"
    by (simp add: example_defs status_defs)
  have dd: "descendants 1 env_dirs ''/d'' = [''/d/u'', ''/d/t'']"
    by (simp add: example_defs status_defs)
  have "\<forall>d\<in>set [''/d'', ''/d/u'', ''/d/t''].
          stat_ok env_dirs d \<and> (common_IsDir env_dirs d \<longrightarrow> os_Open env_dirs d = None)"
    by (simp add: stat_ok_def example_defs status_defs)
  moreover have "\<not> db_fails db_dirs OpFileByPath"
    by (simp add: example_defs)
  ultimately have nd: "no_failure 1 env_dirs db_dirs ''/d''"
    unfolding no_failure_def dd by simp
  have ed: "dir_Readdir env_dirs ''/d'' = [''u'', ''t'']"
    by (simp add: example_defs)
  have u: "getStatus 1 env_dirs db_dirs ''/d/u'' = Some (Inr UNTAGGED)"
    by (simp add: example_defs store_defs status_defs)
  have t: "getStatus 1 env_dirs db_dirs ''/d/t'' = Some (Inr TAGGED)"
    by (simp add: example_defs store_defs status_defs)
  have jt: "filepath_Join env_dirs ''/d'' ''t'' = ''/d/t''"
    by (simp add: example_defs)
  have "\<exists>x\<in>set (dir_Readdir env_dirs ''/d''). \<exists>k st.
          getStatus k env_dirs db_dirs (filepath_Join env_dirs ''/d'' x) = Some (Inr st)
          \<and> (st = TAGGED \<or> st = MODIFIED \<or> st = NESTED)"
    using t jt ed by (intro bexI [of _ "''t''"] exI [of _ 1] exI [of _ TAGGED]) simp_all
  with wd nd getStatus_untagged_directory [OF hd, of 1]
  have gd: "getStatus 2 env_dirs db_dirs ''/d'' = Some (Inr NESTED)"
    by (simp add: numeral_2_eq_2)
  have h: "FileByPath db_c ''/a'' = Inr None" "common_IsDir env_tree ''/a''"
    by (simp_all add: example_defs store_defs status_defs)
  have h0: "FileByPath db_empty ''/a'' = Inr None"
    by (simp add: example_defs store_defs)
  have w: "within_depth 2 env_tree ''/a''"
    by (simp add: eval_nat_numeral example_defs status_defs)
  have ds: "descendants 2 env_tree ''/a'' = [''/a/b'', ''/a/b/c'']"
    by (simp add: eval_nat_numeral example_defs status_defs)
  have "\<forall>d\<in>set [''/a'', ''/a/b'', ''/a/b/c''].
          stat_ok env_tree d \<and> (common_IsDir env_tree d \<longrightarrow> os_Open env_tree d = None)"
    by (simp add: stat_ok_def example_defs status_defs)
  moreover have "\<not> db_fails db_empty OpFileByPath"
    by (simp add: example_defs)
  ultimately have n0: "no_failure 2 env_tree db_empty ''/a''"
    unfolding no_failure_def ds by simp
  have g: "getStatus 3 env_tree db_c ''/a'' = Some (Inr NESTED)"
    by (simp add: eval_nat_numeral example_defs store_defs status_defs)
  have g0: "getStatus 3 env_tree db_empty ''/a'' = Some (Inr UNTAGGED)"
    by (simp add: eval_nat_numeral example_defs store_defs status_defs)
  note c1 = getStatus_untagged_directory [OF h, of 2, THEN conjunct2, THEN conjunct2, rule_format, OF g]
  note c2 = getStatus_untagged_directory [OF h0 h(2), of 2, THEN conjunct2, THEN conjunct2, rule_format, OF g0]
  from c1
  have 1: "\<exists>j. \<exists>d\<in>set (descendants j env_tree ''/a''). \<exists>k st.
           getStatus k env_tree db_c d = Some (Inr st)
           \<and> (st = TAGGED \<or> st = MODIFIED \<or> st = NESTED)"
    by simp
  from c2
  have 2: "\<not> (\<exists>j. \<exists>d\<in>set (descendants j env_tree ''/a''). \<exists>k st.
           getStatus k env_tree db_empty d = Some (Inr st)
           \<and> (st = TAGGED \<or> st = MODIFIED \<or> st = NESTED))"
    by simp
  show ?thesis by (intro conjI wd nd ed u t gd w n0 ds g g0 1 2)
qed

subsection \<open>The dupes command\<close>

text \<open>
  Claim C1 as stated fails: after the stat loop findDuplicatesOf returns errBlank as soon
  as \<open>wereErrors\<close> is set, before any fingerprint is taken. Probing \<^verbatim>\<open>/f\<close> alone reports
  its duplicate \<^verbatim>\<open>/copy\<close>; probing the missing \<^verbatim>\<open>/gone\<close> together with \<^verbatim>\<open>/f\<close> writes the
  warning and nothing else.
\<close>

theorem findDuplicatesOf_partial_counterexample:
  "os_Stat env_tree ''/gone'' = Inl ErrNotExist
   \<and> findDuplicatesOf env_tree db_mixed [''/f''] False =
        ([Info ''/f: identifying duplicate files.'', Println ''/copy''], None)
   \<and> findDuplicatesOf env_tree db_mixed [''/gone'', ''/f''] False =
        ([Warn ''/gone: no such file''], Some ErrBlank)"
  by (simp add: example_defs store_defs dupes_defs)

text \<open>
  Claim C1, amended. In probe mode, when the settings can be read from the store, every
  candidate can be stat'ed or fails with not-found or permission-denied, and at least
  one fails so, each failing candidate is
  reported as a per-path warning, in order, and the operation then returns the blank
  (non-fatal) error at once: nothing else is written and no duplicate detection is
  performed for any candidate.
\<close>

theorem findDuplicatesOf_unavailable:
  assumes "store_Settings db = Inr settings"
    and "\<forall>p\<in>set paths. stat_unavailable e p \<or> (\<exists>info. os_Stat e p = Inr info)"
    and "\<exists>p\<in>set paths. stat_unavailable e p"
  shows "findDuplicatesOf e db paths recursive = (concat (map (stat_warning e) paths), Some ErrBlank)"
  using assms(1,3) by (simp add: findDuplicatesOf_def statPaths_warnings [OF assms(2)])

theorem findDuplicatesOf_unavailable_witness:
  "stat_unavailable env_tree ''/gone'' \<and> stat_unavailable env_tree ''/locked''
   \<and> findDuplicatesOf env_tree db_mixed [''/gone'', ''/f'', ''/locked''] False =
       ([Warn ''/gone: no such file'', Warn ''/locked: permission denied''], Some ErrBlank)"
proof -
  have h: "store_Settings db_mixed = Inr (db_settings db_mixed)"
    "\<forall>p\<in>set [''/gone'', ''/f'', ''/locked'']. stat_unavailable env_tree p \<or> (\<exists>info. os_Stat env_tree p = Inr info)"
    "\<exists>p\<in>set [''/gone'', ''/f'', ''/locked'']. stat_unavailable env_tree p"
    by (simp_all add: example_defs dupes_defs)
  have u: "stat_unavailable env_tree ''/gone'' \<and> stat_unavailable env_tree ''/locked''"
    by (simp add: example_defs dupes_defs)
  have w: "concat (map (stat_warning env_tree) [''/gone'', ''/f'', ''/locked'']) =
      [Warn ''/gone: no such file'', Warn ''/locked: permission denied'']"
    by (simp add: example_defs dupes_defs)
  from findDuplicatesOf_unavailable [OF h, of False] u w show ?thesis by simp
qed

text \<open>
  Claim C8. In probe mode a candidate whose fresh fingerprint is empty is skipped: the
  loop goes on with the remaining candidates in the same state, having written only the
  verbosity-2 log line, so the lines on standard output and the returned error are those
  of the run without the empty-fingerprint candidates. In global mode no set returned by
  DuplicateFiles contains a file with the empty fingerprint, and every file line that
  findDuplicatesInDb prints is the path of a stored file whose fingerprint is not empty.
\<close>

theorem empty_fingerprint_never_duplicate:
  "(empty_fingerprint e settings path \<longrightarrow>
      probePaths e db settings len first (path # paths) =
        (Info (path @ '': identifying duplicate files.'')
           # fst (probePaths e db settings len first paths),
         snd (probePaths e db settings len first paths)))
   \<and> filter is_Println (fst (probePaths e db settings len first paths)) =
       filter is_Println (fst (probePaths e db settings len first
          (filter (\<lambda>p. \<not> empty_fingerprint e settings p) paths)))
   \<and> snd (probePaths e db settings len first paths) =
       snd (probePaths e db settings len first
          (filter (\<lambda>p. \<not> empty_fingerprint e settings p) paths))
   \<and> (\<forall>fileSets. DuplicateFiles db = Inr fileSets \<longrightarrow>
         (\<forall>fileSet\<in>set fileSets. \<forall>f\<in>set fileSet. file_Fingerprint f \<noteq> []))
   \<and> (\<forall>ev\<in>set (fst (findDuplicatesInDb e db)).
         (\<exists>msg. ev = Info msg) \<or> ev = Println []
         \<or> (\<exists>n. ev = Println (''Set of '' @ show_nat n @ '' duplicates:''))
         \<or> (\<exists>f\<in>set (db_files db). file_Fingerprint f \<noteq> []
               \<and> ev = Println (''  '' @ common_MakeRelative e (file_Path f))))"
proof -
  have p1: "empty_fingerprint e settings path \<longrightarrow>
      probePaths e db settings len first (path # paths) =
        (Info (path @ '': identifying duplicate files.'')
           # fst (probePaths e db settings len first paths),
         snd (probePaths e db settings len first paths))"
    using probePaths_skip [of e settings path db len first paths] by blast
  have p2: "filter is_Println (fst (probePaths e db settings len first paths)) =
       filter is_Println (fst (probePaths e db settings len first
          (filter (\<lambda>p. \<not> empty_fingerprint e settings p) paths)))"
    and p3: "snd (probePaths e db settings len first paths) =
       snd (probePaths e db settings len first
          (filter (\<lambda>p. \<not> empty_fingerprint e settings p) paths))"
    using probePaths_filter [of e db settings len first paths] by simp_all
  have p4: "\<forall>fileSets. DuplicateFiles db = Inr fileSets \<longrightarrow>
         (\<forall>fileSet\<in>set fileSets. \<forall>f\<in>set fileSet. file_Fingerprint f \<noteq> [])"
    using DuplicateFiles_nonempty_fingerprint [of db] by blast
  have p5: "\<forall>ev\<in>set (fst (findDuplicatesInDb e db)).
         (\<exists>msg. ev = Info msg) \<or> ev = Println []
         \<or> (\<exists>n. ev = Println (''Set of '' @ show_nat n @ '' duplicates:''))
         \<or> (\<exists>f\<in>set (db_files db). file_Fingerprint f \<noteq> []
               \<and> ev = Println (''  '' @ common_MakeRelative e (file_Path f)))"
    using findDuplicatesInDb_lines [of _ e db] by blast
  show ?thesis by (intro conjI p1 p2 p3 p4 p5)
qed

theorem empty_fingerprint_never_duplicate_witness:
  "empty_fingerprint env_tree (db_settings db_mixed) ''/empty''
   \<and> probePaths env_tree db_mixed (db_settings db_mixed) 2 True [''/empty'', ''/f''] =
       ([Info ''/empty: identifying duplicate files.'',
         Info ''/f: identifying duplicate files.'', Println ''/f:'', Println ''  /copy''], None)
   \<and> findDuplicatesOf env_tree db_mixed [''/empty''] False =
       ([Info ''/empty: identifying duplicate files.''], None)
   \<and> DuplicateFiles db_mixed =
       Inr [[\<lparr>file_Id = 1, file_Path = ''/f'', file_Fingerprint = ''fp:/f'',
               file_ModTimestamp = \<lparr>sec = 150, nsec = 0\<rparr>\<rparr>,
             \<lparr>file_Id = 4, file_Path = ''/copy'', file_Fingerprint = ''fp:/f'',
               file_ModTimestamp = \<lparr>sec = 150, nsec = 0\<rparr>\<rparr>]]
   \<and> file_Fingerprint \<lparr>file_Id = 4, file_Path = ''/copy'', file_Fingerprint = ''fp:/f'',
               file_ModTimestamp = \<lparr>sec = 150, nsec = 0\<rparr>\<rparr> \<noteq> []
   \<and> Println ''  /copy'' \<in> set (fst (findDuplicatesInDb env_tree db_mixed))
   \<and> Println ''  /blank'' \<notin> set (fst (findDuplicatesInDb env_tree db_mixed))"
proof -
  have em: "empty_fingerprint env_tree (db_settings db_mixed) ''/empty''"
    by (simp add: empty_fingerprint_def example_defs)
  have rest: "probePaths env_tree db_mixed (db_settings db_mixed) 2 True [''/f''] =
       ([Info ''/f: identifying duplicate files.'', Println ''/f:'', Println ''  /copy''], None)"
    by (simp add: example_defs store_defs)
  have one: "findDuplicatesOf env_tree db_mixed [''/empty''] False =
       ([Info ''/empty: identifying duplicate files.''], None)"
    by (simp add: example_defs store_defs dupes_defs)
  have d: "DuplicateFiles db_mixed =
       Inr [[\<lparr>file_Id = 1, file_Path = ''/f'', file_Fingerprint = ''fp:/f'',
               file_ModTimestamp = \<lparr>sec = 150, nsec = 0\<rparr>\<rparr>,
             \<lparr>file_Id = 4, file_Path = ''/copy'', file_Fingerprint = ''fp:/f'',
               file_ModTimestamp = \<lparr>sec = 150, nsec = 0\<rparr>\<rparr>]]"
    by (simp add: DuplicateFiles_def example_defs)
  note t = empty_fingerprint_never_duplicate [of env_tree "db_settings db_mixed" "''/empty''"
      db_mixed 2 True "[''/f'']"]
  from t em rest have 1: "probePaths env_tree db_mixed (db_settings db_mixed) 2 True [''/empty'', ''/f''] =
       ([Info ''/empty: identifying duplicate files.'',
         Info ''/f: identifying duplicate files.'', Println ''/f:'', Println ''  /copy''], None)"
    by simp
  from t d have 2: "file_Fingerprint \<lparr>file_Id = 4, file_Path = ''/copy'', file_Fingerprint = ''fp:/f'',
               file_ModTimestamp = \<lparr>sec = 150, nsec = 0\<rparr>\<rparr> \<noteq> []"
    by simp
  have ev: "fst (findDuplicatesInDb env_tree db_mixed) =
      [Info ''identifying duplicate files.'',
       Info (''found '' @ show_nat 1 @ '' sets of duplicate files.''),
       Println (''Set of '' @ show_nat 2 @ '' duplicates:''),
       Println ''  /f'', Println ''  /copy'']"
    by (simp add: findDuplicatesInDb_def d numeral_2_eq_2) (simp add: example_defs)
  then have 3: "Println ''  /copy'' \<in> set (fst (findDuplicatesInDb env_tree db_mixed))"
    by simp
  have "\<not> (\<exists>f\<in>set (db_files db_mixed). file_Fingerprint f \<noteq> []
           \<and> Println ''  /blank'' = Println (''  '' @ common_MakeRelative env_tree (file_Path f)))"
    by (simp add: example_defs)
  with t have 4: "Println ''  /blank'' \<notin> set (fst (findDuplicatesInDb env_tree db_mixed))"
    by auto
  show ?thesis by (intro conjI em 1 one d 2 3 4)
qed

end
